theory Spec2Isabelle
  imports Complex_Main "HOL-Library.AList"
begin

section \<open>Python values\<close>

text \<open>
  A Python \<^verbatim>\<open>str\<close> is a sequence of Unicode code points, and \<^verbatim>\<open>len\<close>, slicing and
  \<^verbatim>\<open>re.sub\<close> count code points. A string is therefore a list of code points (natural
  numbers), and \<open>u ''abc''\<close> is the string of an ASCII literal. Characters outside
  printable ASCII are written by their code point, and so are the apostrophe and the
  backslash.
\<close>

type_synonym ustring = "nat list"

abbreviation u :: "string \<Rightarrow> ustring" where
  "u s \<equiv> map of_char s"

text \<open>
  The exceptions the modelled code can raise. \<open>ExternalError\<close> stands for whatever an
  external library or the completion service raises (transport and status errors, import
  errors, parser errors of the PDF libraries).
\<close>

datatype error =
    FileNotFoundError ustring
  | JSONDecodeError
  | AttributeError
  | TypeError
  | KeyError ustring
  | UnicodeEncodeError
  | UnicodeDecodeError
  | ExternalError ustring

text \<open>
  The values \<^verbatim>\<open>json.load\<close> produces. A \<^verbatim>\<open>dict\<close> keeps insertion order, so an object is an
  association list; the first binding of a key is the one a lookup sees. Numbers are
  carried around and never computed with.
\<close>

datatype json =
    JNull
  | JBool bool
  | JNum rat
  | JStr ustring
  | JArr "json list"
  | JObj "(ustring \<times> json) list"

definition ebind :: "error + 'a \<Rightarrow> ('a \<Rightarrow> error + 'b) \<Rightarrow> error + 'b" where
  "ebind m f = (case m of Inl e \<Rightarrow> Inl e | Inr x \<Rightarrow> f x)"

text \<open>\<^verbatim>\<open>d.get(k, dflt)\<close> on a dict \<open>d\<close>.\<close>

definition dict_get :: "(ustring \<times> json) list \<Rightarrow> ustring \<Rightarrow> json \<Rightarrow> json" where
  "dict_get d k dflt = (case map_of d k of Some v \<Rightarrow> v | None \<Rightarrow> dflt)"

text \<open>The attribute \<^verbatim>\<open>.get\<close> exists on a dict only: on any other value looking it up raises.\<close>

fun as_dict :: "json \<Rightarrow> error + (ustring \<times> json) list" where
  "as_dict (JObj d) = Inr d"
| "as_dict v = Inl AttributeError"

text \<open>\<^verbatim>\<open>x[k]\<close> with a string key.\<close>

fun py_getitem :: "json \<Rightarrow> ustring \<Rightarrow> error + json" where
  "py_getitem (JObj d) k = (case map_of d k of Some v \<Rightarrow> Inr v | None \<Rightarrow> Inl (KeyError k))"
| "py_getitem v k = Inl TypeError"


text \<open>\<^verbatim>\<open>w in s\<close> on two strings: \<open>w\<close> occurs in \<open>s\<close> as a contiguous run.\<close>

fun is_substring :: "ustring \<Rightarrow> ustring \<Rightarrow> bool" where
  "is_substring w [] = (w = [])"
| "is_substring w (c # cs) = (take (length w) (c # cs) = w \<or> is_substring w cs)"

text \<open>\<^verbatim>\<open>k in data\<close> for a string \<open>k\<close>: key membership, element membership or substring.\<close>

fun py_in :: "ustring \<Rightarrow> json \<Rightarrow> error + bool" where
  "py_in k (JObj d) = Inr (k \<in> set (map fst d))"
| "py_in k (JArr xs) = Inr (JStr k \<in> set xs)"
| "py_in k (JStr s) = Inr (is_substring k s)"
| "py_in k v = Inl TypeError"

text \<open>\<^verbatim>\<open>for x in data\<close>: the elements of a list, the keys of a dict, the characters of a string.\<close>

fun py_iter :: "json \<Rightarrow> error + json list" where
  "py_iter (JArr xs) = Inr xs"
| "py_iter (JObj d) = Inr (map (\<lambda>kv. JStr (fst kv)) d)"
| "py_iter (JStr s) = Inr (map (\<lambda>c. JStr [c]) s)"
| "py_iter v = Inl TypeError"

text \<open>A loop that appends one result per element and stops at the first exception.\<close>

fun for_each :: "('a \<Rightarrow> error + 'b) \<Rightarrow> 'a list \<Rightarrow> error + 'b list" where
  "for_each f [] = Inr []"
| "for_each f (x # xs) =
     (case f x of
        Inl e \<Rightarrow> Inl e
      | Inr y \<Rightarrow> (case for_each f xs of Inl e \<Rightarrow> Inl e | Inr ys \<Rightarrow> Inr (y # ys)))"

section \<open>The standard library\<close>

text \<open>
  What the standard library does is a parameter: \<^verbatim>\<open>str.lower\<close>,
  \<^verbatim>\<open>json.dumps(v, ensure_ascii=False, indent=2)\<close> (the text \<^verbatim>\<open>json.dump\<close> writes with these
  options), \<^verbatim>\<open>json.dumps(v, indent=2)\<close>, the beginning of the first text that
  \<^verbatim>\<open>json.dump\<close> has handed to the file when the file refuses a later piece,
  \<^verbatim>\<open>json.loads\<close> (\<open>None\<close> when it raises JSONDecodeError; \<^verbatim>\<open>json.load\<close> on a file's text)
  and the text an f-string puts for a value.
\<close>

record py_library =
  str_lower :: "ustring \<Rightarrow> ustring"
  json_dumps :: "json \<Rightarrow> ustring"
  json_dumps_ascii :: "json \<Rightarrow> ustring"
  json_dump_cut :: "json \<Rightarrow> ustring"
  json_loads :: "ustring \<Rightarrow> json option"
  format_value :: "json \<Rightarrow> ustring"

section \<open>profile\_memory.py: the profile store\<close>

text \<open>
  The file system maps a path to what the file holds: text, or bytes that are not UTF-8
  text. A text file opened with \<^verbatim>\<open>encoding='utf-8'\<close> takes any text but one that holds a
  surrogate code point (U+D800 to U+DFFF): on such a text \<^verbatim>\<open>write\<close> raises
  UnicodeEncodeError.
\<close>

datatype content = Text ustring | NotText

type_synonym fs = "ustring \<Rightarrow> content option"

definition is_surrogate :: "nat \<Rightarrow> bool" where
  "is_surrogate c = (55296 \<le> c \<and> c \<le> 57343)"

definition utf8_encodable :: "ustring \<Rightarrow> bool" where
  "utf8_encodable s = list_all (\<lambda>c. \<not> is_surrogate c) s"

text \<open>\<^verbatim>\<open>any(k in data for k in keys)\<close>: the generator stops at the first hit.\<close>

fun any_in :: "ustring list \<Rightarrow> json \<Rightarrow> error + bool" where
  "any_in [] data = Inr False"
| "any_in (k # ks) data =
     (case py_in k data of
        Inl e \<Rightarrow> Inl e
      | Inr b \<Rightarrow> if b then Inr True else any_in ks data)"

definition french_sentinels :: "ustring list" where
  "french_sentinels = [u ''identite'', u ''profil_long'', u ''competences'']"

definition spanish_sentinels :: "ustring list" where
  "spanish_sentinels = [u ''identidad'', u ''perfil_largo'', u ''competencias'']"

definition looks_french_schema :: "json \<Rightarrow> error + bool" where
  "looks_french_schema data = any_in french_sentinels data"

definition looks_spanish_schema :: "json \<Rightarrow> error + bool" where
  "looks_spanish_schema data = any_in spanish_sentinels data"

text \<open>
  The body of the loop over the experiences: the dict literal built from one experience
  (\<^verbatim>\<open>exp\<close> in the source), and the exception when the element is not a dict.
\<close>

definition french_experience :: "(ustring \<times> json) list \<Rightarrow> json" where
  "french_experience xp = JObj
     [(u ''company'', dict_get xp (u ''entreprise'') JNull),
      (u ''location'', dict_get xp (u ''lieu'') JNull),
      (u ''role'', dict_get xp (u ''poste'') JNull),
      (u ''dates'', dict_get xp (u ''dates'') JNull),
      (u ''missions'', dict_get xp (u ''missions'') (JArr []))]"

fun migrate_experience_fr :: "json \<Rightarrow> error + json" where
  "migrate_experience_fr (JObj xp) = Inr (french_experience xp)"
| "migrate_experience_fr v = Inl AttributeError"

fun migrate_french_to_english :: "json \<Rightarrow> error + json" where
  "migrate_french_to_english (JObj fr) =
     (let identity = dict_get fr (u ''identite'') (JObj []);
          experiences_fr = dict_get fr (u ''experiences'') (JArr []);
          competences_fr = dict_get fr (u ''competences'') (JObj []);
          interests = dict_get fr (u ''centres_interet'') JNull
      in ebind (py_iter experiences_fr) (\<lambda>exps.
         ebind (for_each migrate_experience_fr exps) (\<lambda>experiences_en.
         ebind (as_dict identity) (\<lambda>ident.
         ebind (as_dict competences_fr) (\<lambda>comp.
           Inr (JObj
             [(u ''identity'', JObj
                 [(u ''name'', dict_get ident (u ''nom'') JNull),
                  (u ''title'', dict_get ident (u ''titre'') JNull)]),
              (u ''long_profile'', dict_get fr (u ''profil_long'') JNull),
              (u ''experiences'', JArr experiences_en),
              (u ''skills'', JObj
                 [(u ''technical'', dict_get comp (u ''techniques'') (JArr [])),
                  (u ''methodological'', dict_get comp (u ''methodologiques'') (JArr []))]),
              (u ''education'', dict_get fr (u ''formation'') JNull),
              (u ''languages'', dict_get fr (u ''langues'') (JArr [])),
              (u ''interests'', if interests \<noteq> JNull then interests else JArr []),
              (u ''memory_notes'', dict_get fr (u ''memory_notes'') (JObj []))]))))))"
| "migrate_french_to_english v = Inl AttributeError"

definition spanish_experience :: "(ustring \<times> json) list \<Rightarrow> json" where
  "spanish_experience xp = JObj
     [(u ''company'', dict_get xp (u ''empresa'') JNull),
      (u ''location'', dict_get xp (u ''lugar'') JNull),
      (u ''role'', dict_get xp (u ''puesto'') JNull),
      (u ''dates'', dict_get xp (u ''fechas'') JNull),
      (u ''missions'', dict_get xp (u ''misiones'') (JArr []))]"

fun migrate_experience_es :: "json \<Rightarrow> error + json" where
  "migrate_experience_es (JObj xp) = Inr (spanish_experience xp)"
| "migrate_experience_es v = Inl AttributeError"

fun migrate_spanish_to_english :: "json \<Rightarrow> error + json" where
  "migrate_spanish_to_english (JObj es) =
     (let identidad = dict_get es (u ''identidad'') (JObj []);
          experiencias_es = dict_get es (u ''experiencias'') (JArr []);
          competencias_es = dict_get es (u ''competencias'') (JObj []);
          intereses = dict_get es (u ''intereses'') JNull
      in ebind (py_iter experiencias_es) (\<lambda>exps.
         ebind (for_each migrate_experience_es exps) (\<lambda>experiencias_en.
         ebind (as_dict identidad) (\<lambda>ident.
         ebind (as_dict competencias_es) (\<lambda>comp.
           Inr (JObj
             [(u ''identity'', JObj
                 [(u ''name'', dict_get ident (u ''nombre'') JNull),
                  (u ''title'', dict_get ident (u ''titulo'') JNull)]),
              (u ''long_profile'', dict_get es (u ''perfil_largo'') JNull),
              (u ''experiences'', JArr experiencias_en),
              (u ''skills'', JObj
                 [(u ''technical'', dict_get comp (u ''tecnicas'') (JArr [])),
                  (u ''methodological'', dict_get comp (u ''metodologicas'') (JArr []))]),
              (u ''education'', dict_get es (u ''formacion'') JNull),
              (u ''languages'', dict_get es (u ''idiomas'') (JArr [])),
              (u ''interests'', if intereses \<noteq> JNull then intereses else JArr []),
              (u ''memory_notes'', dict_get es (u ''memory_notes'') (JObj []))]))))))"
| "migrate_spanish_to_english v = Inl AttributeError"

text \<open>
  \<^verbatim>\<open>save\<close>: \<^verbatim>\<open>open(self.path, 'w', encoding='utf-8')\<close> empties the file and \<^verbatim>\<open>json.dump\<close>
  writes the serialisation of the document piece by piece. With \<^verbatim>\<open>ensure_ascii=False\<close> a
  surrogate in a string goes into the text as it is; the file refuses the piece that
  holds it, \<^verbatim>\<open>save\<close> raises, and the file keeps the pieces written before. Every value
  of type \<open>json\<close> is one that \<^verbatim>\<open>json.dump\<close> serialises, and opening the file is taken to
  succeed.
\<close>

definition save :: "py_library \<Rightarrow> ustring \<Rightarrow> json \<Rightarrow> fs \<Rightarrow> (error + unit) \<times> fs" where
  "save L path profile fs =
     (if utf8_encodable (json_dumps L profile)
      then (Inr (), fs(path \<mapsto> Text (json_dumps L profile)))
      else (Inl UnicodeEncodeError, fs(path \<mapsto> Text (json_dump_cut L profile))))"

definition not_found_message :: "ustring \<Rightarrow> ustring" where
  "not_found_message path =
     u ''Profile file not found: '' @ path @ u ''. Please run the profile preparer first.''"

text \<open>Lines 10 to 14 of \<^verbatim>\<open>load\<close>: the file is opened and parsed.\<close>

definition read_document :: "py_library \<Rightarrow> ustring \<Rightarrow> fs \<Rightarrow> error + json" where
  "read_document L path fs =
     (case fs path of
        None \<Rightarrow> Inl (FileNotFoundError (not_found_message path))
      | Some NotText \<Rightarrow> Inl UnicodeDecodeError
      | Some (Text t) \<Rightarrow>
          (case json_loads L t of
             None \<Rightarrow> Inl JSONDecodeError
           | Some data \<Rightarrow> Inr data))"

text \<open>\<^verbatim>\<open>self.save(data)\<close> and then \<^verbatim>\<open>return data\<close>, as both branches of \<^verbatim>\<open>load\<close> end.\<close>

definition save_and_return :: "py_library \<Rightarrow> ustring \<Rightarrow> json \<Rightarrow> fs \<Rightarrow> (error + json) \<times> fs" where
  "save_and_return L path data fs =
     (case save L path data fs of
        (Inl e, fs') \<Rightarrow> (Inl e, fs')
      | (Inr w, fs') \<Rightarrow> (Inr data, fs'))"

text \<open>
  \<^verbatim>\<open>load\<close> returns the document or the exception, and the file system it leaves. A legacy
  document is migrated and written back before it is returned; an exception of the
  migration leaves the file as it was, an exception of the write leaves it cut.
\<close>

definition load :: "py_library \<Rightarrow> ustring \<Rightarrow> fs \<Rightarrow> (error + json) \<times> fs" where
  "load L path fs =
     (case read_document L path fs of
        Inl e \<Rightarrow> (Inl e, fs)
      | Inr data \<Rightarrow>
          (case looks_french_schema data of
             Inl e \<Rightarrow> (Inl e, fs)
           | Inr french \<Rightarrow>
               if french then
                 (case migrate_french_to_english data of
                    Inl e \<Rightarrow> (Inl e, fs)
                  | Inr data' \<Rightarrow> save_and_return L path data' fs)
               else
                 (case looks_spanish_schema data of
                    Inl e \<Rightarrow> (Inl e, fs)
                  | Inr spanish \<Rightarrow>
                      if spanish then
                        (case migrate_spanish_to_english data of
                           Inl e \<Rightarrow> (Inl e, fs)
                         | Inr data' \<Rightarrow> save_and_return L path data' fs)
                      else (Inr data, fs))))"

text \<open>
  The schema migrator of the specification is the dispatch inside \<^verbatim>\<open>load\<close> (lines 16 to
  22) without the write-back: French first, then Spanish, else the document as it is.
\<close>

definition migrate :: "json \<Rightarrow> error + json" where
  "migrate data =
     ebind (looks_french_schema data) (\<lambda>french.
       if french then migrate_french_to_english data
       else ebind (looks_spanish_schema data) (\<lambda>spanish.
         if spanish then migrate_spanish_to_english data else Inr data))"


section \<open>Python strings\<close>

text \<open>
  \<^verbatim>\<open>str.strip()\<close> removes leading and trailing whitespace: the code points for which
  \<^verbatim>\<open>str.isspace\<close> holds.
\<close>

definition py_isspace :: "nat \<Rightarrow> bool" where
  "py_isspace c =
     ((9 \<le> c \<and> c \<le> 13) \<or> (28 \<le> c \<and> c \<le> 32) \<or> c = 133 \<or> c = 160 \<or> c = 5760
      \<or> (8192 \<le> c \<and> c \<le> 8202) \<or> c = 8232 \<or> c = 8233 \<or> c = 8239 \<or> c = 8287
      \<or> c = 12288)"

definition py_strip :: "ustring \<Rightarrow> ustring" where
  "py_strip s = rev (dropWhile py_isspace (rev (dropWhile py_isspace s)))"

text \<open>\<^verbatim>\<open>s.replace(a, b)\<close> for single characters \<open>a\<close> and \<open>b\<close>.\<close>

definition replace_char :: "nat \<Rightarrow> nat \<Rightarrow> ustring \<Rightarrow> ustring" where
  "replace_char a b s = map (\<lambda>c. if c = a then b else c) s"

text \<open>\<^verbatim>\<open>sep.join(xs)\<close>.\<close>

fun join :: "ustring \<Rightarrow> ustring list \<Rightarrow> ustring" where
  "join sep [] = []"
| "join sep [x] = x"
| "join sep (x # y # ys) = x @ sep @ join sep (y # ys)"

text \<open>\<^verbatim>\<open>s.find(c)\<close> and \<^verbatim>\<open>s.rfind(c)\<close> for a single character: the index, or -1.\<close>

fun find_char :: "nat \<Rightarrow> ustring \<Rightarrow> int" where
  "find_char c [] = -1"
| "find_char c (x # xs) =
     (if x = c then 0 else (let i = find_char c xs in if i = -1 then -1 else i + 1))"

definition rfind_char :: "nat \<Rightarrow> ustring \<Rightarrow> int" where
  "rfind_char c s =
     (let i = find_char c (rev s) in if i = -1 then -1 else int (length s) - 1 - i)"

text \<open>\<^verbatim>\<open>s[a:b]\<close> for \<open>0 \<le> a\<close> and \<open>0 \<le> b\<close>, as the callers have them.\<close>

definition slice :: "int \<Rightarrow> int \<Rightarrow> 'a list \<Rightarrow> 'a list" where
  "slice a b s = drop (nat a) (take (nat b) s)"

section \<open>pdf\_text\_extractor.py\<close>

text \<open>
  The three PDF libraries are outside the repository. What they do on a path is a
  parameter: whether the import succeeds, and for each call either its result or the
  exception it raises (a missing or unreadable file makes every one of them raise).
  \<open>page_extract_text\<close> and \<open>pdfminer_extract_text\<close> may return \<^verbatim>\<open>None\<close>.
\<close>

record ('page, 'image) pdf_libraries =
  import_pypdf2 :: bool
  pdf_reader_pages :: "ustring \<Rightarrow> error + 'page list"
  page_extract_text :: "'page \<Rightarrow> error + ustring option"
  import_pdfminer :: bool
  pdfminer_extract_text :: "ustring \<Rightarrow> error + ustring option"
  import_ocr :: bool
  convert_from_path :: "ustring \<Rightarrow> error + 'image list"
  image_to_string :: "'image \<Rightarrow> ustring \<Rightarrow> error + ustring"

text \<open>\<^verbatim>\<open>x or ""\<close> on an optional string.\<close>

fun or_empty :: "ustring option \<Rightarrow> ustring" where
  "or_empty None = []"
| "or_empty (Some s) = s"

text \<open>The loop of \<^verbatim>\<open>_try_pypdf2\<close>: the text so far is the accumulator.\<close>

fun pypdf2_pages_text :: "('page \<Rightarrow> error + ustring option) \<Rightarrow> 'page list \<Rightarrow> ustring \<Rightarrow> error + ustring" where
  "pypdf2_pages_text extract [] text = Inr text"
| "pypdf2_pages_text extract (page # pages) text =
     (case extract page of
        Inl e \<Rightarrow> Inl e
      | Inr extracted \<Rightarrow> pypdf2_pages_text extract pages (text @ or_empty extracted @ [10]))"

definition try_pypdf2 :: "('page, 'image) pdf_libraries \<Rightarrow> ustring \<Rightarrow> ustring" where
  "try_pypdf2 L path =
     (if \<not> import_pypdf2 L then []
      else (case ebind (pdf_reader_pages L path)
                   (\<lambda>pages. pypdf2_pages_text (page_extract_text L) pages []) of
              Inl e \<Rightarrow> []
            | Inr text \<Rightarrow> py_strip text))"

definition try_pdfminer :: "('page, 'image) pdf_libraries \<Rightarrow> ustring \<Rightarrow> ustring" where
  "try_pdfminer L path =
     (if \<not> import_pdfminer L then []
      else (case pdfminer_extract_text L path of
              Inl e \<Rightarrow> []
            | Inr text \<Rightarrow> py_strip (or_empty text)))"

text \<open>\<^verbatim>\<open>lang or 'eng'\<close>: the default when the language is \<^verbatim>\<open>None\<close> or empty.\<close>

definition lang_or_eng :: "ustring option \<Rightarrow> ustring" where
  "lang_or_eng lang = (if or_empty lang = [] then u ''eng'' else or_empty lang)"

definition try_ocr :: "('page, 'image) pdf_libraries \<Rightarrow> ustring \<Rightarrow> ustring option \<Rightarrow> ustring" where
  "try_ocr L path lang =
     (if \<not> import_ocr L then []
      else (case ebind (convert_from_path L path)
                   (\<lambda>pages. for_each (\<lambda>img. image_to_string L img (lang_or_eng lang)) pages) of
              Inl e \<Rightarrow> []
            | Inr ocr_texts \<Rightarrow> py_strip (join [10] ocr_texts)))"

definition extract_pdf_text_any :: "('page, 'image) pdf_libraries \<Rightarrow> ustring \<Rightarrow> ustring option \<Rightarrow> ustring" where
  "extract_pdf_text_any L path ocr_lang =
     (let text = try_pypdf2 L path in
      if text \<noteq> [] then text
      else (let text = try_pdfminer L path in
            if text \<noteq> [] then text
            else try_ocr L path ocr_lang))"

section \<open>generate\_resume.py: the tailoring stages\<close>

text \<open>
  The language code \<^verbatim>\<open>self.locale\<close> is one of \<^verbatim>\<open>'en'\<close>, \<^verbatim>\<open>'fr'\<close>, \<^verbatim>\<open>'es'\<close>: the constructor
  sets \<^verbatim>\<open>'en'\<close> and only \<^verbatim>\<open>detect_language\<close> produces another.
\<close>

datatype language = En | Fr | Es

text \<open>
  A \<^verbatim>\<open>ResumeGenerator\<close>: the completion service behind \<^verbatim>\<open>self.client.generate\<close> (the text it
  returns for a prompt, or the exception it raises), the profile loaded by the
  constructor, and the language code. Messages printed to the terminal are left out.
\<close>

record resume_generator =
  client :: "ustring \<Rightarrow> error + ustring"
  profile :: json
  locale_code :: language

definition any_word_in :: "ustring list \<Rightarrow> ustring \<Rightarrow> bool" where
  "any_word_in ws lowered = list_ex (\<lambda>w. is_substring w lowered) ws"

definition detect_language :: "py_library \<Rightarrow> ustring \<Rightarrow> language" where
  "detect_language L text =
     (let lowered = str_lower L text in
      if any_word_in [u '' el '', u '' la '', u '' los '', u '' las '', u ''experiencia'',
                      u ''habilidades'', u ''idiomas''] lowered then Es
      else if any_word_in [u '' le '', u '' la '', u '' les '', u ''exp'' @ [233] @ u ''rience'',
                      u ''comp'' @ [233] @ u ''tences'', u ''langues''] lowered then Fr
      else En)"

fun title_instruction :: "language \<Rightarrow> ustring" where
  "title_instruction En =
     u ''Extract the job title from this offer. Return ONLY the title''
     @ u '', nothing else.''"
| "title_instruction Fr =
     u ''Extrayez l'' @ [39] @ u ''intitul'' @ [233]
     @ u '' du poste de cette offre. Retournez UNIQUEMENT le titre, rie'' @ u ''n d''
     @ [39] @ u ''autre.''"
| "title_instruction Es =
     u ''Extrae el t'' @ [237]
     @ u ''tulo del puesto de esta oferta. Devuelve SOLO el t'' @ [237]
     @ u ''tulo, nada m'' @ [225] @ u ''s.''"

fun expert_header :: "language \<Rightarrow> ustring" where
  "expert_header En =
     u ''You are a resume writing expert.''"
| "expert_header Fr =
     u ''Vous '' @ [234] @ u ''tes un expert en r'' @ [233] @ u ''daction de CV.''"
| "expert_header Es =
     u ''Eres un experto en redacci'' @ [243] @ u ''n de CV.''"

fun section_offer :: "language \<Rightarrow> ustring" where
  "section_offer En =
     u ''JOB OFFER:''"
| "section_offer Fr =
     u ''OFFRE D'' @ [39] @ u ''EMPLOI:''"
| "section_offer Es =
     u ''OFERTA DE EMPLEO:''"

fun summary_instruction :: "language \<Rightarrow> ustring" where
  "summary_instruction En =
     u ''Write a 4-5 line profile paragraph highlighting the most rel''
     @ u ''evant points for this offer. Use keywords from the offer. Be''
     @ u '' specific and impactful. Return ONLY the paragraph without a''
     @ u ''ny preface or comments.''"
| "summary_instruction Fr =
     u ''R'' @ [233]
     @ u ''digez un paragraphe de 4-5 lignes mettant en avant les point''
     @ u ''s les plus pertinents pour cette offre. Utilisez les mots-cl'' @ [233]
     @ u ''s de l'' @ [39] @ u ''offre. Soyez pr'' @ [233]
     @ u ''cis et percutant. Retournez UNIQUEMENT le paragraphe sans pr'' @ [233]
     @ u ''face ni commentaires.''"
| "summary_instruction Es =
     u ''Escribe un p'' @ [225] @ u ''rrafo de 4-5 l'' @ [237]
     @ u ''neas destacando los puntos m'' @ [225]
     @ u ''s relevantes para esta oferta. Usa palabras clave de la ofer'' @ u ''ta. S''
     @ [233] @ u '' espec'' @ [237] @ u ''fico e impactante. Devuelve SOLO el p'' @ [225]
     @ u ''rrafo sin prefacio ni comentarios.''"

definition title_prompt :: "language \<Rightarrow> ustring \<Rightarrow> ustring" where
  "title_prompt lng offer =
       title_instruction lng
       @ [10, 10] @ u ''Offer:'' @ [10]
       @ take 1000 offer
       @ [10, 10] @ u ''Job title:''"

definition summary_prompt :: "language \<Rightarrow> ustring \<Rightarrow> ustring \<Rightarrow> ustring" where
  "summary_prompt lng offer long_profile =
       expert_header lng
       @ [10, 10]
       @ section_offer lng
       @ [10]
       @ offer
       @ [10, 10] @ u ''FULL CANDIDATE PROFILE:'' @ [10]
       @ long_profile
       @ [10, 10]
       @ summary_instruction lng"

definition experiences_prompt :: "language \<Rightarrow> ustring \<Rightarrow> ustring \<Rightarrow> ustring" where
  "experiences_prompt lng offer experiences_json =
       expert_header lng
       @ [10, 10]
       @ section_offer lng
       @ [10]
       @ offer
       @ [10, 10] @ u ''CANDIDATE EXPERIENCES (JSON):'' @ [10]
       @ experiences_json
       @ [10, 10] @ u ''Select the 2-3 MOST relevant experiences and adapt missions ''
       @ u ''to match the offer.'' @ [10]
       @ u ''For each experience, keep 4-5 detailed missions showcasing r''
       @ u ''equested competencies.'' @ [10, 10]
       @ u ''IMPORTANT: Use REAL values from the JSON (real company names''
       @ u '', cities, dates).'' @ [10, 10]
       @ u ''Return ONLY a valid JSON array of objects with this schema:'' @ [10]
       @ u ''['' @ [10] @ u ''  {'' @ [10] @ u ''    '' @ [34] @ u ''company'' @ [34]
       @ u '': '' @ [34] @ u ''Exact company name'' @ [34] @ u '','' @ [10] @ u ''    ''
       @ [34] @ u ''location'' @ [34] @ u '': '' @ [34] @ u ''Exact city'' @ [34]
       @ u '','' @ [10] @ u ''    '' @ [34] @ u ''role'' @ [34] @ u '': '' @ [34]
       @ u ''Exact role title'' @ [34] @ u '','' @ [10] @ u ''    '' @ [34] @ u ''dates''
       @ [34] @ u '': '' @ [34] @ u ''Real dates'' @ [34] @ u '','' @ [10] @ u ''    ''
       @ [34] @ u ''missions'' @ [34] @ u '': ['' @ [34] @ u ''detailed mission 1'' @ [34]
       @ u '', '' @ [34] @ u ''detailed mission 2'' @ [34] @ u '', '' @ [34]
       @ u ''detailed mission 3'' @ [34] @ u '', '' @ [34] @ u ''detailed mission 4''
       @ [34] @ u '']'' @ [10] @ u ''  }'' @ [10] @ u '']'' @ [10]"

definition skills_prompt :: "language \<Rightarrow> ustring \<Rightarrow> ustring \<Rightarrow> ustring" where
  "skills_prompt lng offer skills_json =
       expert_header lng
       @ [10, 10]
       @ section_offer lng
       @ [10]
       @ offer
       @ [10, 10] @ u ''CANDIDATE SKILLS:'' @ [10]
       @ skills_json
       @ [10, 10] @ u ''Select the relevant skills for this offer (8-10 per category''
       @ u ''). Prioritize skills mentioned in the offer.'' @ [10]
       @ u ''Return ONLY this exact HTML-like format:'' @ [10]
       @ u ''<b>Technical:</b> skill1, skill2, skill3, skill4, skill5, sk''
       @ u ''ill6, skill7, skill8<br/>'' @ [10]
       @ u ''<b>Management & Methods:</b> skill1, skill2, skill3, skill4,''
       @ u '' skill5, skill6'' @ [10]"

text \<open>The characters \<^verbatim>\<open>re.sub(r'[<>:"/\\|?*]', '', s)\<close> removes.\<close>

definition forbidden_chars :: "nat list" where
  "forbidden_chars = [60, 62, 58, 34, 47, 92, 124, 63, 42]"

definition sanitize :: "ustring \<Rightarrow> ustring" where
  "sanitize s = filter (\<lambda>c. c \<notin> set forbidden_chars) s"

text \<open>What \<^verbatim>\<open>extract_job_title\<close> makes of the response (lines 69 to 74).\<close>

definition title_of_response :: "ustring \<Rightarrow> ustring option" where
  "title_of_response response =
     (let title = replace_char 10 32 (py_strip response);
          title = sanitize title;
          title = take 50 title
      in if title \<noteq> [] then Some title else None)"

definition extract_job_title :: "py_library \<Rightarrow> resume_generator \<Rightarrow> ustring \<Rightarrow> (error + ustring option) \<times> resume_generator" where
  "extract_job_title L self offer =
     (let lng = detect_language L offer;
          self = self\<lparr>locale_code := lng\<rparr>
      in case client self (title_prompt lng offer) of
           Inl e \<Rightarrow> (Inl e, self)
         | Inr response \<Rightarrow> (Inr (title_of_response response), self))"

definition adapt_profile :: "py_library \<Rightarrow> resume_generator \<Rightarrow> ustring \<Rightarrow> error + ustring" where
  "adapt_profile L self offer =
     ebind (py_getitem (profile self) (u ''long_profile'')) (\<lambda>long_profile.
       client self (summary_prompt (locale_code self) offer (format_value L long_profile)))"

text \<open>
  \<^verbatim>\<open>x[:n]\<close> on a value: the first \<open>n\<close> elements of a list or characters of a string; no other
  JSON value can be sliced.
\<close>

fun py_prefix :: "nat \<Rightarrow> json \<Rightarrow> error + json" where
  "py_prefix n (JArr xs) = Inr (JArr (take n xs))"
| "py_prefix n (JStr s) = Inr (JStr (take n s))"
| "py_prefix n v = Inl TypeError"

definition select_experiences :: "py_library \<Rightarrow> resume_generator \<Rightarrow> ustring \<Rightarrow> error + json" where
  "select_experiences L self offer =
     ebind (py_getitem (profile self) (u ''experiences'')) (\<lambda>experiences.
       let experiences_json = json_dumps L experiences in
       ebind (client self (experiences_prompt (locale_code self) offer experiences_json)) (\<lambda>response.
         let start = find_char 91 response;
             end = rfind_char 93 response + 1;
             parsed = (if start \<noteq> -1 \<and> end > start
                       then json_loads L (slice start end response)
                       else json_loads L response)
         in case parsed of
              Some v \<Rightarrow> Inr v
            | None \<Rightarrow> py_prefix 2 experiences))"

definition select_skills :: "py_library \<Rightarrow> resume_generator \<Rightarrow> ustring \<Rightarrow> error + ustring" where
  "select_skills L self offer =
     ebind (py_getitem (profile self) (u ''skills'')) (\<lambda>skills.
       client self (skills_prompt (locale_code self) offer (json_dumps L skills)))"

text \<open>\<^verbatim>\<open>name.replace(' ', '_')\<close>: only a string has the method.\<close>

fun underscored :: "json \<Rightarrow> error + ustring" where
  "underscored (JStr s) = Inr (replace_char 32 95 s)"
| "underscored v = Inl AttributeError"

text \<open>
  \<^verbatim>\<open>generate_filename\<close>: \<open>today\<close> is \<^verbatim>\<open>datetime.now().strftime("%Y%m%d")\<close>; a job title of
  \<^verbatim>\<open>None\<close> or the empty string takes the branch of the candidate's name.
\<close>

definition generate_filename :: "resume_generator \<Rightarrow> ustring \<Rightarrow> ustring option \<Rightarrow> error + ustring" where
  "generate_filename self today job_title =
     ebind (if or_empty job_title \<noteq> [] then Inr (u ''Resume_'' @ or_empty job_title)
            else ebind (py_getitem (profile self) (u ''identity'')) (\<lambda>identity.
                 ebind (py_getitem identity (u ''name'')) (\<lambda>name.
                 ebind (underscored name) (\<lambda>candidate_name.
                   Inr (u ''Resume_'' @ candidate_name @ u ''_'' @ today)))))
       (\<lambda>name. Inr (sanitize name @ u ''.pdf''))"

section \<open>main.py: the tailoring stages of the interactive application\<close>

text \<open>
  An \<^verbatim>\<open>AIResumeGenerator\<close>: the client (\<^verbatim>\<open>None\<close> until one is set up) and the profile.
\<close>

record ai_resume_generator =
  main_client :: "(ustring \<Rightarrow> error + ustring) option"
  main_profile :: json

definition default_summary :: ustring where
  "default_summary =
     u ''Professional with relevant experience.''"

definition main_summary_prompt :: "ustring \<Rightarrow> ustring \<Rightarrow> ustring \<Rightarrow> ustring" where
  "main_summary_prompt job_description long_profile experiences_json =
       u ''You are a resume writing expert. Write a 4-5 line profession''
       @ u ''al summary for this candidate that highlights their most rel''
       @ u ''evant experience for this specific job.'' @ [10, 10] @ u ''JOB DESCRIPTION:''
       @ [10]
       @ job_description
       @ [10, 10] @ u ''CANDIDATE PROFILE:'' @ [10]
       @ long_profile
       @ [10, 10] @ u ''CANDIDATE EXPERIENCES:'' @ [10]
       @ experiences_json
       @ [10, 10] @ u ''Write a compelling summary that matches the job requirements''
       @ u ''. Return ONLY the summary paragraph.''"

definition main_experiences_prompt :: "ustring \<Rightarrow> ustring \<Rightarrow> ustring" where
  "main_experiences_prompt job_description experiences_json =
       u ''You are a resume writing expert. Select the 2-3 MOST relevan''
       @ u ''t experiences for this job and adapt the missions to match t''
       @ u ''he job requirements.'' @ [10, 10] @ u ''JOB DESCRIPTION:'' @ [10]
       @ job_description
       @ [10, 10] @ u ''CANDIDATE EXPERIENCES:'' @ [10]
       @ experiences_json
       @ [10, 10] @ u ''Return ONLY a valid JSON array of the most relevant experien''
       @ u ''ces with adapted missions. Use the same structure as the inp'' @ u ''ut.''"

definition main_skills_prompt :: "ustring \<Rightarrow> ustring \<Rightarrow> ustring" where
  "main_skills_prompt job_description skills_json =
       u ''You are a resume writing expert. Select the most relevant sk''
       @ u ''ills for this job from the candidate'' @ [39] @ u ''s skills.'' @ [10, 10]
       @ u ''JOB DESCRIPTION:'' @ [10]
       @ job_description
       @ [10, 10] @ u ''CANDIDATE SKILLS:'' @ [10]
       @ skills_json
       @ [10, 10] @ u ''Return ONLY a valid JSON object with '' @ [39] @ u ''technical''
       @ [39] @ u '' and '' @ [39] @ u ''soft'' @ [39]
       @ u '' arrays containing the most relevant skills.''"

definition default_skills :: json where
  "default_skills = JObj [(u ''technical'', JArr []), (u ''soft'', JArr [])]"

text \<open>
  The tolerant parse: the text from the first opening bracket to the last closing one
  when there is such a text, else the whole response, handed to \<^verbatim>\<open>json.loads\<close>.
\<close>

definition parse_between :: "py_library \<Rightarrow> nat \<Rightarrow> nat \<Rightarrow> ustring \<Rightarrow> error + json" where
  "parse_between L opening closing response =
     (let start = find_char opening response;
          end = rfind_char closing response + 1;
          parsed = (if start \<noteq> -1 \<and> end > start
                    then json_loads L (slice start end response)
                    else json_loads L response)
      in case parsed of
           Some v \<Rightarrow> Inr v
         | None \<Rightarrow> Inl JSONDecodeError)"

text \<open>
  Each stage wraps the call of the service and the parse in \<^verbatim>\<open>try\<close> with
  \<^verbatim>\<open>except Exception\<close>; what the handler returns is computed from the profile.
\<close>

definition adapt_profile_for_job :: "py_library \<Rightarrow> ai_resume_generator \<Rightarrow> ustring \<Rightarrow> error + json" where
  "adapt_profile_for_job L self job_description =
     ebind (as_dict (main_profile self)) (\<lambda>p.
       case main_client self of
         None \<Rightarrow> Inr (dict_get p (u ''long_profile'') (JStr default_summary))
       | Some generate \<Rightarrow>
           (case generate (main_summary_prompt job_description
                    (format_value L (dict_get p (u ''long_profile'') (JStr [])))
                    (json_dumps_ascii L (dict_get p (u ''experiences'') (JArr [])))) of
              Inr response \<Rightarrow> Inr (JStr response)
            | Inl e \<Rightarrow> Inr (dict_get p (u ''long_profile'') (JStr default_summary))))"

definition select_relevant_experiences :: "py_library \<Rightarrow> ai_resume_generator \<Rightarrow> ustring \<Rightarrow> error + json" where
  "select_relevant_experiences L self job_description =
     ebind (as_dict (main_profile self)) (\<lambda>p.
       case main_client self of
         None \<Rightarrow> py_prefix 3 (dict_get p (u ''experiences'') (JArr []))
       | Some generate \<Rightarrow>
           (let experiences_json = json_dumps_ascii L (dict_get p (u ''experiences'') (JArr []))
            in case ebind (generate (main_experiences_prompt job_description experiences_json))
                      (parse_between L 91 93) of
                 Inr v \<Rightarrow> Inr v
               | Inl e \<Rightarrow> py_prefix 3 (dict_get p (u ''experiences'') (JArr []))))"

definition select_relevant_skills :: "py_library \<Rightarrow> ai_resume_generator \<Rightarrow> ustring \<Rightarrow> error + json" where
  "select_relevant_skills L self job_description =
     ebind (as_dict (main_profile self)) (\<lambda>p.
       case main_client self of
         None \<Rightarrow> Inr (dict_get p (u ''skills'') default_skills)
       | Some generate \<Rightarrow>
           (let skills_json = json_dumps_ascii L (dict_get p (u ''skills'') (JObj []))
            in case ebind (generate (main_skills_prompt job_description skills_json))
                      (parse_between L 123 125) of
                 Inr v \<Rightarrow> Inr v
               | Inl e \<Rightarrow> Inr (dict_get p (u ''skills'') default_skills)))"

section \<open>Shapes the claims speak about\<close>

text \<open>The top-level keys of the canonical schema, in the order the migration writes them.\<close>

definition canonical_keys :: "ustring list" where
  "canonical_keys =
     [u ''identity'', u ''long_profile'', u ''experiences'', u ''skills'',
      u ''education'', u ''languages'', u ''interests'', u ''memory_notes'']"

text \<open>
  A legacy document is well shaped when the sub-documents the migration reads into are
  what the data model says: the identity and the skills are mappings when present, and
  the experiences are a sequence of mappings when present.
\<close>

fun is_dict :: "json \<Rightarrow> bool" where
  "is_dict (JObj d) = True"
| "is_dict v = False"

fun is_dict_list :: "json \<Rightarrow> bool" where
  "is_dict_list (JArr xs) = list_all is_dict xs"
| "is_dict_list v = False"

definition french_shape :: "(ustring \<times> json) list \<Rightarrow> bool" where
  "french_shape d =
     (is_dict (dict_get d (u ''identite'') (JObj []))
      \<and> is_dict_list (dict_get d (u ''experiences'') (JArr []))
      \<and> is_dict (dict_get d (u ''competences'') (JObj [])))"

definition spanish_shape :: "(ustring \<times> json) list \<Rightarrow> bool" where
  "spanish_shape d =
     (is_dict (dict_get d (u ''identidad'') (JObj []))
      \<and> is_dict_list (dict_get d (u ''experiencias'') (JArr []))
      \<and> is_dict (dict_get d (u ''competencias'') (JObj [])))"

text \<open>
  The documents of the specification's concrete scenario. What the scenario elides (the
  long profile, the experiences, the education) is a parameter.
\<close>

definition ingenieure :: ustring where
  "ingenieure = u ''Ing'' @ [233] @ u ''nieure''"

definition francais_natif :: ustring where
  "francais_natif = u ''Fran'' @ [231] @ u ''ais (natif)''"

definition ana_french :: "json \<Rightarrow> (ustring \<times> json) list list \<Rightarrow> json \<Rightarrow> (ustring \<times> json) list" where
  "ana_french profil_long experiences formation =
     [(u ''identite'', JObj
         [(u ''nom'', JStr (u ''Ana Dupont'')), (u ''titre'', JStr ingenieure)]),
      (u ''profil_long'', profil_long),
      (u ''experiences'', JArr (map JObj experiences)),
      (u ''competences'', JObj
         [(u ''techniques'', JArr [JStr (u ''Python'')]), (u ''methodologiques'', JArr [])]),
      (u ''formation'', formation),
      (u ''langues'', JArr [JStr francais_natif])]"

definition ana_canonical :: "json \<Rightarrow> json list \<Rightarrow> json \<Rightarrow> (ustring \<times> json) list" where
  "ana_canonical long_profile experiences education =
     [(u ''identity'', JObj
         [(u ''name'', JStr (u ''Ana Dupont'')), (u ''title'', JStr ingenieure)]),
      (u ''long_profile'', long_profile),
      (u ''experiences'', JArr experiences),
      (u ''skills'', JObj
         [(u ''technical'', JArr [JStr (u ''Python'')]), (u ''methodological'', JArr [])]),
      (u ''education'', education),
      (u ''languages'', JArr [JStr francais_natif]),
      (u ''interests'', JArr []),
      (u ''memory_notes'', JObj [])]"

text \<open>A concrete instance of the scenario, with one experience, and the default path.\<close>

definition sample_experience_fr :: "(ustring \<times> json) list" where
  "sample_experience_fr =
     [(u ''entreprise'', JStr (u ''Acme'')),
      (u ''lieu'', JStr (u ''Lyon'')),
      (u ''poste'', JStr (u ''Dev'')),
      (u ''dates'', JStr (u ''2020-2023'')),
      (u ''missions'', JArr [JStr (u ''API'')])]"

definition sample_experience_en :: json where
  "sample_experience_en = JObj
     [(u ''company'', JStr (u ''Acme'')),
      (u ''location'', JStr (u ''Lyon'')),
      (u ''role'', JStr (u ''Dev'')),
      (u ''dates'', JStr (u ''2020-2023'')),
      (u ''missions'', JArr [JStr (u ''API'')])]"

definition sample_french :: "(ustring \<times> json) list" where
  "sample_french = ana_french (JStr (u ''...'')) [sample_experience_fr] (JStr (u ''...''))"

definition sample_canonical :: "(ustring \<times> json) list" where
  "sample_canonical = ana_canonical (JStr (u ''...'')) [sample_experience_en] (JStr (u ''...''))"

definition profile_path :: ustring where
  "profile_path = u ''profile_structure.json''"

text \<open>
  Concrete collaborators: PDF libraries on a missing file and on a scanned file, a
  standard library, a completion service that answers and one that raises.
\<close>

definition sample_pdf :: ustring where
  "sample_pdf = u ''cv.pdf''"

definition missing_file_libraries :: "(nat, nat) pdf_libraries" where
  "missing_file_libraries =
     \<lparr>import_pypdf2 = True,
      pdf_reader_pages = (\<lambda>path. Inl (FileNotFoundError path)),
      page_extract_text = (\<lambda>page. Inr None),
      import_pdfminer = True,
      pdfminer_extract_text = (\<lambda>path. Inl (FileNotFoundError path)),
      import_ocr = True,
      convert_from_path = (\<lambda>path. Inl (ExternalError path)),
      image_to_string = (\<lambda>img lang. Inr [])\<rparr>"

definition scanned_pdf_libraries :: "(nat, nat) pdf_libraries" where
  "scanned_pdf_libraries =
     \<lparr>import_pypdf2 = True,
      pdf_reader_pages = (\<lambda>path. Inr [0, 1]),
      page_extract_text = (\<lambda>page. Inr None),
      import_pdfminer = True,
      pdfminer_extract_text = (\<lambda>path. Inr (Some (u ''  ''))),
      import_ocr = True,
      convert_from_path = (\<lambda>path. Inr [0, 1]),
      image_to_string = (\<lambda>img lang. Inr (if img = 0 then u ''Ana'' else u ''Dupont ''))\<rparr>"

definition text_layer_libraries :: "(nat, nat) pdf_libraries" where
  "text_layer_libraries =
     \<lparr>import_pypdf2 = True,
      pdf_reader_pages = (\<lambda>path. Inr [0, 1]),
      page_extract_text = (\<lambda>page. Inr (if page = 0 then Some (u '' Ana Dupont'') else None)),
      import_pdfminer = False,
      pdfminer_extract_text = (\<lambda>path. Inl (ExternalError path)),
      import_ocr = False,
      convert_from_path = (\<lambda>path. Inl (ExternalError path)),
      image_to_string = (\<lambda>img lang. Inr [])\<rparr>"

definition sample_library :: py_library where
  "sample_library =
     \<lparr>str_lower = (\<lambda>s. s),
      json_dumps = (\<lambda>v. []),
      json_dumps_ascii = (\<lambda>v. []),
      json_dump_cut = (\<lambda>v. []),
      json_loads = (\<lambda>s. None),
      format_value = (\<lambda>v. [])\<rparr>"

definition sample_response :: ustring where
  "sample_response = [32] @ u ''Data'' @ [10] @ u ''Engineer: <ML/AI>?'' @ [10]"

definition sample_offer :: ustring where
  "sample_offer = u ''Data engineer wanted''"

definition sample_today :: ustring where
  "sample_today = u ''20240115''"

definition answering_generator :: resume_generator where
  "answering_generator =
     \<lparr>client = (\<lambda>prompt. Inr sample_response),
      profile = JObj sample_canonical,
      locale_code = En\<rparr>"

definition failing_generator :: resume_generator where
  "failing_generator =
     \<lparr>client = (\<lambda>prompt. Inl (ExternalError (u ''connection refused''))),
      profile = JObj sample_canonical,
      locale_code = En\<rparr>"

definition nameless_profile :: "(ustring \<times> json) list" where
  "nameless_profile =
     [(u ''identity'', JObj [(u ''name'', JNull), (u ''title'', JNull)]),
      (u ''long_profile'', JNull),
      (u ''experiences'', JArr []),
      (u ''skills'', JObj [(u ''technical'', JArr []), (u ''methodological'', JArr [])]),
      (u ''education'', JNull),
      (u ''languages'', JArr []),
      (u ''interests'', JArr []),
      (u ''memory_notes'', JObj [])]"

definition nameless_generator :: resume_generator where
  "nameless_generator =
     \<lparr>client = (\<lambda>prompt. Inr sample_response),
      profile = JObj nameless_profile,
      locale_code = En\<rparr>"

definition failing_main_generator :: ai_resume_generator where
  "failing_main_generator =
     \<lparr>main_client = Some (\<lambda>prompt. Inl (ExternalError (u ''connection refused''))),
      main_profile = JObj sample_canonical\<rparr>"

text \<open>
  The document after lines 105 to 107 of \<^verbatim>\<open>record_adaptation_note\<close>, for a document \<open>d\<close>
  whose ledger is \<open>notes\<close>: the ledger with the note under the job title, put under
  \<open>memory_notes\<close>.
\<close>

definition noted :: "ustring \<Rightarrow> ustring \<Rightarrow> (ustring \<times> json) list \<Rightarrow> (ustring \<times> json) list \<Rightarrow> (ustring \<times> json) list" where
  "noted job_title note notes d =
     AList.update (u ''memory_notes'') (JObj (AList.update job_title (JStr note) notes)) d"

text \<open>
  The documents of the concrete runs: the sample with one and with two notes, a document
  with the sentinels of both dialects and its French migration, and documents with a lone
  surrogate (U+D83D) in a string: a French one, its migration, and the sample with such a
  note.
\<close>

definition sample_noted_once :: "(ustring \<times> json) list" where
  "sample_noted_once = noted (u ''Engineer'') (u ''note A'') [] sample_canonical"

definition sample_noted_twice :: "(ustring \<times> json) list" where
  "sample_noted_twice =
     noted (u ''Designer'') (u ''note B'') [(u ''Engineer'', JStr (u ''note A''))] sample_noted_once"

definition both_dialects :: "(ustring \<times> json) list" where
  "both_dialects =
     [(u ''identidad'', JObj [(u ''nombre'', JStr (u ''Luz''))]),
      (u ''identite'', JObj [(u ''nom'', JStr (u ''Ana''))])]"

definition defaults_named :: "json \<Rightarrow> (ustring \<times> json) list" where
  "defaults_named name =
     [(u ''identity'', JObj [(u ''name'', name), (u ''title'', JNull)]),
      (u ''long_profile'', JNull),
      (u ''experiences'', JArr []),
      (u ''skills'', JObj [(u ''technical'', JArr []), (u ''methodological'', JArr [])]),
      (u ''education'', JNull),
      (u ''languages'', JArr []),
      (u ''interests'', JArr []),
      (u ''memory_notes'', JObj [])]"

definition both_dialects_migrated :: "(ustring \<times> json) list" where
  "both_dialects_migrated = defaults_named (JStr (u ''Ana''))"

definition surrogate_french :: "(ustring \<times> json) list" where
  "surrogate_french = [(u ''identite'', JObj [(u ''nom'', JStr [55357])])]"

definition surrogate_canonical :: "(ustring \<times> json) list" where
  "surrogate_canonical = defaults_named (JStr [55357])"

definition surrogate_noted :: "(ustring \<times> json) list" where
  "surrogate_noted = noted (u ''Engineer'') [55357] [] sample_canonical"

text \<open>
  The texts of these documents, as Python's \<^verbatim>\<open>json\<close> module writes them with
  \<^verbatim>\<open>ensure_ascii=False, indent=2\<close>; for the two documents that a UTF-8 file refuses, also
  what the file holds after the write has raised; and a file text with the escape
  of the surrogate, which \<^verbatim>\<open>json.load\<close> reads as \<open>surrogate_french\<close>.
\<close>

definition text_sample_french :: ustring where
  \<open>text_sample_french =
     u ''{'' @ [10] @ u ''  "identite": {'' @ [10] @ u ''    "nom": "Ana Dupont",''
     @ [10] @ u ''    "titre": "Ing'' @ [233] @ u ''nieure"'' @ [10] @ u ''  },'' @ [10]
     @ u ''  "profil_long": "...",'' @ [10] @ u ''  "experiences": ['' @ [10]
     @ u ''    {'' @ [10] @ u ''      "entreprise": "Acme",'' @ [10]
     @ u ''      "lieu": "Lyon",'' @ [10] @ u ''      "poste": "Dev",'' @ [10]
     @ u ''      "dates": "2020-2023",'' @ [10] @ u ''      "missions": ['' @ [10]
     @ u ''        "API"'' @ [10] @ u ''      ]'' @ [10] @ u ''    }'' @ [10] @ u ''  ],''
     @ [10] @ u ''  "competences": {'' @ [10] @ u ''    "techniques": ['' @ [10]
     @ u ''      "Python"'' @ [10] @ u ''    ],'' @ [10] @ u ''    "methodologiques": []''
     @ [10] @ u ''  },'' @ [10] @ u ''  "formation": "...",'' @ [10]
     @ u ''  "langues": ['' @ [10] @ u ''    "Fran'' @ [231] @ u ''ais (natif)"'' @ [10]
     @ u ''  ]'' @ [10] @ u ''}''\<close>

definition text_sample_canonical :: ustring where
  \<open>text_sample_canonical =
     u ''{'' @ [10] @ u ''  "identity": {'' @ [10] @ u ''    "name": "Ana Dupont",''
     @ [10] @ u ''    "title": "Ing'' @ [233] @ u ''nieure"'' @ [10] @ u ''  },'' @ [10]
     @ u ''  "long_profile": "...",'' @ [10] @ u ''  "experiences": ['' @ [10]
     @ u ''    {'' @ [10] @ u ''      "company": "Acme",'' @ [10]
     @ u ''      "location": "Lyon",'' @ [10] @ u ''      "role": "Dev",'' @ [10]
     @ u ''      "dates": "2020-2023",'' @ [10] @ u ''      "missions": ['' @ [10]
     @ u ''        "API"'' @ [10] @ u ''      ]'' @ [10] @ u ''    }'' @ [10] @ u ''  ],''
     @ [10] @ u ''  "skills": {'' @ [10] @ u ''    "technical": ['' @ [10]
     @ u ''      "Python"'' @ [10] @ u ''    ],'' @ [10] @ u ''    "methodological": []''
     @ [10] @ u ''  },'' @ [10] @ u ''  "education": "...",'' @ [10]
     @ u ''  "languages": ['' @ [10] @ u ''    "Fran'' @ [231] @ u ''ais (natif)"'' @ [10]
     @ u ''  ],'' @ [10] @ u ''  "interests": [],'' @ [10] @ u ''  "memory_notes": {}''
     @ [10] @ u ''}''\<close>

definition text_sample_noted_once :: ustring where
  \<open>text_sample_noted_once =
     u ''{'' @ [10] @ u ''  "identity": {'' @ [10] @ u ''    "name": "Ana Dupont",''
     @ [10] @ u ''    "title": "Ing'' @ [233] @ u ''nieure"'' @ [10] @ u ''  },'' @ [10]
     @ u ''  "long_profile": "...",'' @ [10] @ u ''  "experiences": ['' @ [10]
     @ u ''    {'' @ [10] @ u ''      "company": "Acme",'' @ [10]
     @ u ''      "location": "Lyon",'' @ [10] @ u ''      "role": "Dev",'' @ [10]
     @ u ''      "dates": "2020-2023",'' @ [10] @ u ''      "missions": ['' @ [10]
     @ u ''        "API"'' @ [10] @ u ''      ]'' @ [10] @ u ''    }'' @ [10] @ u ''  ],''
     @ [10] @ u ''  "skills": {'' @ [10] @ u ''    "technical": ['' @ [10]
     @ u ''      "Python"'' @ [10] @ u ''    ],'' @ [10] @ u ''    "methodological": []''
     @ [10] @ u ''  },'' @ [10] @ u ''  "education": "...",'' @ [10]
     @ u ''  "languages": ['' @ [10] @ u ''    "Fran'' @ [231] @ u ''ais (natif)"'' @ [10]
     @ u ''  ],'' @ [10] @ u ''  "interests": [],'' @ [10] @ u ''  "memory_notes": {''
     @ [10] @ u ''    "Engineer": "note A"'' @ [10] @ u ''  }'' @ [10] @ u ''}''\<close>

definition text_sample_noted_twice :: ustring where
  \<open>text_sample_noted_twice =
     u ''{'' @ [10] @ u ''  "identity": {'' @ [10] @ u ''    "name": "Ana Dupont",''
     @ [10] @ u ''    "title": "Ing'' @ [233] @ u ''nieure"'' @ [10] @ u ''  },'' @ [10]
     @ u ''  "long_profile": "...",'' @ [10] @ u ''  "experiences": ['' @ [10]
     @ u ''    {'' @ [10] @ u ''      "company": "Acme",'' @ [10]
     @ u ''      "location": "Lyon",'' @ [10] @ u ''      "role": "Dev",'' @ [10]
     @ u ''      "dates": "2020-2023",'' @ [10] @ u ''      "missions": ['' @ [10]
     @ u ''        "API"'' @ [10] @ u ''      ]'' @ [10] @ u ''    }'' @ [10] @ u ''  ],''
     @ [10] @ u ''  "skills": {'' @ [10] @ u ''    "technical": ['' @ [10]
     @ u ''      "Python"'' @ [10] @ u ''    ],'' @ [10] @ u ''    "methodological": []''
     @ [10] @ u ''  },'' @ [10] @ u ''  "education": "...",'' @ [10]
     @ u ''  "languages": ['' @ [10] @ u ''    "Fran'' @ [231] @ u ''ais (natif)"'' @ [10]
     @ u ''  ],'' @ [10] @ u ''  "interests": [],'' @ [10] @ u ''  "memory_notes": {''
     @ [10] @ u ''    "Engineer": "note A",'' @ [10] @ u ''    "Designer": "note B"''
     @ [10] @ u ''  }'' @ [10] @ u ''}''\<close>

definition text_both_dialects :: ustring where
  \<open>text_both_dialects =
     u ''{'' @ [10] @ u ''  "identidad": {'' @ [10] @ u ''    "nombre": "Luz"'' @ [10]
     @ u ''  },'' @ [10] @ u ''  "identite": {'' @ [10] @ u ''    "nom": "Ana"'' @ [10]
     @ u ''  }'' @ [10] @ u ''}''\<close>

definition text_both_dialects_migrated :: ustring where
  \<open>text_both_dialects_migrated =
     u ''{'' @ [10] @ u ''  "identity": {'' @ [10] @ u ''    "name": "Ana",'' @ [10]
     @ u ''    "title": null'' @ [10] @ u ''  },'' @ [10] @ u ''  "long_profile": null,''
     @ [10] @ u ''  "experiences": [],'' @ [10] @ u ''  "skills": {'' @ [10]
     @ u ''    "technical": [],'' @ [10] @ u ''    "methodological": []'' @ [10]
     @ u ''  },'' @ [10] @ u ''  "education": null,'' @ [10] @ u ''  "languages": [],''
     @ [10] @ u ''  "interests": [],'' @ [10] @ u ''  "memory_notes": {}'' @ [10]
     @ u ''}''\<close>

definition text_surrogate_canonical :: ustring where
  \<open>text_surrogate_canonical =
     u ''{'' @ [10] @ u ''  "identity": {'' @ [10] @ u ''    "name": "'' @ [55357]
     @ u ''",'' @ [10] @ u ''    "title": null'' @ [10] @ u ''  },'' @ [10]
     @ u ''  "long_profile": null,'' @ [10] @ u ''  "experiences": [],'' @ [10]
     @ u ''  "skills": {'' @ [10] @ u ''    "technical": [],'' @ [10]
     @ u ''    "methodological": []'' @ [10] @ u ''  },'' @ [10]
     @ u ''  "education": null,'' @ [10] @ u ''  "languages": [],'' @ [10]
     @ u ''  "interests": [],'' @ [10] @ u ''  "memory_notes": {}'' @ [10] @ u ''}''\<close>

definition cut_surrogate_canonical :: ustring where
  \<open>cut_surrogate_canonical =
     u ''{'' @ [10] @ u ''  "identity": {'' @ [10] @ u ''    "name": ''\<close>

definition text_surrogate_noted :: ustring where
  \<open>text_surrogate_noted =
     u ''{'' @ [10] @ u ''  "identity": {'' @ [10] @ u ''    "name": "Ana Dupont",''
     @ [10] @ u ''    "title": "Ing'' @ [233] @ u ''nieure"'' @ [10] @ u ''  },'' @ [10]
     @ u ''  "long_profile": "...",'' @ [10] @ u ''  "experiences": ['' @ [10]
     @ u ''    {'' @ [10] @ u ''      "company": "Acme",'' @ [10]
     @ u ''      "location": "Lyon",'' @ [10] @ u ''      "role": "Dev",'' @ [10]
     @ u ''      "dates": "2020-2023",'' @ [10] @ u ''      "missions": ['' @ [10]
     @ u ''        "API"'' @ [10] @ u ''      ]'' @ [10] @ u ''    }'' @ [10] @ u ''  ],''
     @ [10] @ u ''  "skills": {'' @ [10] @ u ''    "technical": ['' @ [10]
     @ u ''      "Python"'' @ [10] @ u ''    ],'' @ [10] @ u ''    "methodological": []''
     @ [10] @ u ''  },'' @ [10] @ u ''  "education": "...",'' @ [10]
     @ u ''  "languages": ['' @ [10] @ u ''    "Fran'' @ [231] @ u ''ais (natif)"'' @ [10]
     @ u ''  ],'' @ [10] @ u ''  "interests": [],'' @ [10] @ u ''  "memory_notes": {''
     @ [10] @ u ''    "Engineer": "'' @ [55357] @ u ''"'' @ [10] @ u ''  }'' @ [10]
     @ u ''}''\<close>

definition cut_surrogate_noted :: ustring where
  \<open>cut_surrogate_noted =
     u ''{'' @ [10] @ u ''  "identity": {'' @ [10] @ u ''    "name": "Ana Dupont",''
     @ [10] @ u ''    "title": "Ing'' @ [233] @ u ''nieure"'' @ [10] @ u ''  },'' @ [10]
     @ u ''  "long_profile": "...",'' @ [10] @ u ''  "experiences": ['' @ [10]
     @ u ''    {'' @ [10] @ u ''      "company": "Acme",'' @ [10]
     @ u ''      "location": "Lyon",'' @ [10] @ u ''      "role": "Dev",'' @ [10]
     @ u ''      "dates": "2020-2023",'' @ [10] @ u ''      "missions": ['' @ [10]
     @ u ''        "API"'' @ [10] @ u ''      ]'' @ [10] @ u ''    }'' @ [10] @ u ''  ],''
     @ [10] @ u ''  "skills": {'' @ [10] @ u ''    "technical": ['' @ [10]
     @ u ''      "Python"'' @ [10] @ u ''    ],'' @ [10] @ u ''    "methodological": []''
     @ [10] @ u ''  },'' @ [10] @ u ''  "education": "...",'' @ [10]
     @ u ''  "languages": ['' @ [10] @ u ''    "Fran'' @ [231] @ u ''ais (natif)"'' @ [10]
     @ u ''  ],'' @ [10] @ u ''  "interests": [],'' @ [10] @ u ''  "memory_notes": {''
     @ [10] @ u ''    "Engineer": ''\<close>

definition text_surrogate_french :: ustring where
  \<open>text_surrogate_french =
     u ''{"identite": {"nom": "'' @ [92] @ u ''ud83d"}}''\<close>

text \<open>
  A standard library given by tables, for the concrete runs: what \<^verbatim>\<open>json.loads\<close> reads
  from a few texts (and it rejects every other text), what \<^verbatim>\<open>json.dumps\<close> writes for a
  few documents, and what is left of a refused write.
\<close>

definition table_library :: "(ustring \<times> json) list \<Rightarrow> (json \<times> ustring) list \<Rightarrow> (json \<times> ustring) list \<Rightarrow> py_library" where
  "table_library reads writes cuts =
     \<lparr>str_lower = (\<lambda>s. s),
      json_dumps = (\<lambda>v. case map_of writes v of Some t \<Rightarrow> t | None \<Rightarrow> []),
      json_dumps_ascii = (\<lambda>v. []),
      json_dump_cut = (\<lambda>v. case map_of cuts v of Some t \<Rightarrow> t | None \<Rightarrow> []),
      json_loads = map_of reads,
      format_value = (\<lambda>v. [])\<rparr>"

definition ana_library :: py_library where
  "ana_library = table_library
     [(text_sample_french, JObj sample_french),
      (text_sample_canonical, JObj sample_canonical),
      (text_sample_noted_once, JObj sample_noted_once),
      (text_sample_noted_twice, JObj sample_noted_twice)]
     [(JObj sample_canonical, text_sample_canonical),
      (JObj sample_noted_once, text_sample_noted_once),
      (JObj sample_noted_twice, text_sample_noted_twice),
      (JObj surrogate_noted, text_surrogate_noted)]
     [(JObj surrogate_noted, cut_surrogate_noted)]"

definition both_library :: py_library where
  "both_library = table_library
     [(text_both_dialects, JObj both_dialects)]
     [(JObj both_dialects_migrated, text_both_dialects_migrated)]
     []"

definition surrogate_library :: py_library where
  "surrogate_library = table_library
     [(text_surrogate_french, JObj surrogate_french),
      (text_surrogate_canonical, JObj surrogate_canonical)]
     [(JObj surrogate_canonical, text_surrogate_canonical)]
     [(JObj surrogate_canonical, cut_surrogate_canonical)]"

section \<open>Properties of the profile store\<close>

lemma is_substring_append: "is_substring w (pre @ w @ post)"
proof (induction pre)
  case Nil
  show ?case by (cases w; cases post) simp_all
next
  case (Cons c pre)
  then show ?case by simp
qed

text \<open>
  Claim C8. When the backing file does not exist, \<^verbatim>\<open>load\<close> raises FileNotFoundError and
  nothing else happens: the file system is untouched, and the message names the path and
  the remedy, running the profile preparer.
\<close>

theorem load_absent_file:
  assumes "fs path = None"
  shows "load L path fs = (Inl (FileNotFoundError (not_found_message path)), fs)
       \<and> not_found_message path =
           u ''Profile file not found: '' @ path @ u ''. Please run the profile preparer first.''
       \<and> is_substring (u ''Please run the profile preparer first.'') (not_found_message path)"
proof -
  have "is_substring (u ''Please run the profile preparer first.'')
          ((u ''Profile file not found: '' @ path @ u ''. '')
            @ u ''Please run the profile preparer first.'' @ [])"
    by (rule is_substring_append)
  then have "is_substring (u ''Please run the profile preparer first.'') (not_found_message path)"
    by (simp add: not_found_message_def)
  then show ?thesis
    using assms by (simp add: load_def read_document_def not_found_message_def)
qed

theorem load_absent_file_witness:
  "(Map.empty :: fs) (u ''profile_structure.json'') = None
   \<and> load sample_library (u ''profile_structure.json'') Map.empty =
       (Inl (FileNotFoundError
          (u ''Profile file not found: profile_structure.json. Please run the profile preparer first.'')),
        Map.empty)"
  using load_absent_file [of Map.empty "u ''profile_structure.json''" sample_library]
  by (simp add: not_found_message_def)

lemma looks_french_schema_dict:
  "looks_french_schema (JObj d) = Inr (set (map fst d) \<inter> set french_sentinels \<noteq> {})"
  by (auto simp add: looks_french_schema_def french_sentinels_def)

lemma looks_spanish_schema_dict:
  "looks_spanish_schema (JObj d) = Inr (set (map fst d) \<inter> set spanish_sentinels \<noteq> {})"
  by (auto simp add: looks_spanish_schema_def spanish_sentinels_def)

lemma canonical_keys_no_sentinel:
  "set canonical_keys \<inter> set french_sentinels = {}"
  "set canonical_keys \<inter> set spanish_sentinels = {}"
  by (simp_all add: canonical_keys_def french_sentinels_def spanish_sentinels_def)

lemma migrate_french_keys:
  assumes "migrate_french_to_english x = Inr y"
  shows "\<exists>d. y = JObj d \<and> map fst d = canonical_keys"
proof (cases x)
  case (JObj fr)
  with assms show ?thesis
    by (auto simp add: ebind_def Let_def canonical_keys_def split: sum.splits)
qed (use assms in simp_all)

lemma migrate_spanish_keys:
  assumes "migrate_spanish_to_english x = Inr y"
  shows "\<exists>d. y = JObj d \<and> map fst d = canonical_keys"
proof (cases x)
  case (JObj fr)
  with assms show ?thesis
    by (auto simp add: ebind_def Let_def canonical_keys_def split: sum.splits)
qed (use assms in simp_all)

lemma migrate_canonical:
  assumes "map fst d = canonical_keys"
  shows "migrate (JObj d) = Inr (JObj d)"
  using assms canonical_keys_no_sentinel
  by (simp add: migrate_def ebind_def looks_french_schema_dict looks_spanish_schema_dict)

lemma migrate_output_keys:
  assumes "migrate x = Inr y"
  shows "y = x \<or> (\<exists>d. y = JObj d \<and> map fst d = canonical_keys)"
  using assms migrate_french_keys migrate_spanish_keys
  by (auto simp add: migrate_def ebind_def split: sum.splits if_splits)

lemma migrate_fixed:
  assumes "migrate x = Inr y"
  shows "migrate y = Inr y"
  using migrate_output_keys [OF assms] assms migrate_canonical by auto

lemma save_and_return_eq:
  "save_and_return L path data fs =
     (if utf8_encodable (json_dumps L data)
      then (Inr data, fs(path \<mapsto> Text (json_dumps L data)))
      else (Inl UnicodeEncodeError, fs(path \<mapsto> Text (json_dump_cut L data))))"
  by (simp add: save_and_return_def save_def)

lemma read_document_written:
  "read_document L path (fs(path \<mapsto> Text t)) =
     (case json_loads L t of None \<Rightarrow> Inl JSONDecodeError | Some v \<Rightarrow> Inr v)"
  by (simp add: read_document_def)


lemma migrated_differs_french:
  assumes "looks_french_schema x = Inr True" and "migrate_french_to_english x = Inr y"
  shows "y \<noteq> x"
proof
  assume same: "y = x"
  from assms(2) obtain c where "y = JObj c" and "map fst c = canonical_keys"
    using migrate_french_keys by blast
  then have "looks_french_schema y = Inr False"
    using canonical_keys_no_sentinel by (simp add: looks_french_schema_dict)
  with assms(1) same show False by simp
qed

lemma migrated_differs_spanish:
  assumes "looks_spanish_schema x = Inr True" and "migrate_spanish_to_english x = Inr y"
  shows "y \<noteq> x"
proof
  assume same: "y = x"
  from assms(2) obtain c where "y = JObj c" and "map fst c = canonical_keys"
    using migrate_spanish_keys by blast
  then have "looks_spanish_schema y = Inr False"
    using canonical_keys_no_sentinel by (simp add: looks_spanish_schema_dict)
  with assms(1) same show False by simp
qed

lemma load_result_is_migrate:
  assumes "read_document L path fs = Inr x"
  shows "fst (load L path fs) =
           ebind (migrate x) (\<lambda>y. if y = x \<or> utf8_encodable (json_dumps L y) then Inr y
                                  else Inl UnicodeEncodeError)"
proof (cases "looks_french_schema x")
  case (Inl e)
  with assms show ?thesis by (simp add: load_def migrate_def ebind_def)
next
  case french: (Inr b)
  show ?thesis
  proof (cases b)
    case True
    show ?thesis
    proof (cases "migrate_french_to_english x")
      case (Inl e)
      with assms french True show ?thesis by (simp add: load_def migrate_def ebind_def)
    next
      case (Inr y)
      from french True have "looks_french_schema x = Inr True" by simp
      from migrated_differs_french [OF this Inr] have "y \<noteq> x" .
      with assms french True Inr show ?thesis
        by (simp add: load_def migrate_def ebind_def save_and_return_eq)
    qed
  next
    case False
    show ?thesis
    proof (cases "looks_spanish_schema x")
      case (Inl e)
      with assms french False show ?thesis by (simp add: load_def migrate_def ebind_def)
    next
      case spanish: (Inr s)
      show ?thesis
      proof (cases s)
        case no: False
        with assms french False spanish show ?thesis
          by (simp add: load_def migrate_def ebind_def)
      next
        case yes: True
        show ?thesis
        proof (cases "migrate_spanish_to_english x")
          case (Inl e)
          with assms french False spanish yes show ?thesis
            by (simp add: load_def migrate_def ebind_def)
        next
          case (Inr y)
          from spanish yes have "looks_spanish_schema x = Inr True" by simp
          from migrated_differs_spanish [OF this Inr] have "y \<noteq> x" .
          with assms french False spanish yes Inr show ?thesis
            by (simp add: load_def migrate_def ebind_def save_and_return_eq)
        qed
      qed
    qed
  qed
qed

text \<open>
  Claim C7. Migration is idempotent: migrating the result of a migration changes nothing
  (and when the first migration raises, so does the composition, with the same
  exception). A document with no sentinel key is passed through as it is. \<open>migrate\<close> is
  what \<^verbatim>\<open>load\<close> applies to the document it reads: \<^verbatim>\<open>load\<close> returns what \<open>migrate\<close> returns,
  unless the migrated document is one the file refuses.
\<close>

theorem migrate_idempotent:
  "ebind (migrate x) migrate = migrate x
   \<and> (set (map fst d) \<inter> set french_sentinels = {}
        \<longrightarrow> set (map fst d) \<inter> set spanish_sentinels = {}
        \<longrightarrow> migrate (JObj d) = Inr (JObj d))
   \<and> (read_document L path fs = Inr x \<longrightarrow>
        fst (load L path fs) =
          ebind (migrate x) (\<lambda>y. if y = x \<or> utf8_encodable (json_dumps L y) then Inr y
                                 else Inl UnicodeEncodeError))"
proof (intro conjI impI)
  show "ebind (migrate x) migrate = migrate x"
  proof (cases "migrate x")
    case (Inl e)
    then show ?thesis by (simp add: ebind_def)
  next
    case (Inr y)
    then show ?thesis using migrate_fixed [OF Inr] by (simp add: ebind_def)
  qed
next
  assume "set (map fst d) \<inter> set french_sentinels = {}"
    and "set (map fst d) \<inter> set spanish_sentinels = {}"
  then show "migrate (JObj d) = Inr (JObj d)"
    by (simp add: migrate_def ebind_def looks_french_schema_dict looks_spanish_schema_dict)
next
  assume "read_document L path fs = Inr x"
  then show "fst (load L path fs) =
          ebind (migrate x) (\<lambda>y. if y = x \<or> utf8_encodable (json_dumps L y) then Inr y
                                 else Inl UnicodeEncodeError)"
    by (rule load_result_is_migrate)
qed


text \<open>
  Claim C9. The French sentinels are checked before the Spanish ones: a document with a
  French sentinel key gets the French migration whether or not it also has Spanish
  sentinel keys; the Spanish migration runs only when no French sentinel is present; with
  no sentinel at all the document is returned as it is and the file is not written. The
  migrated document is written back: \<^verbatim>\<open>load\<close> returns it when the file takes its text, and
  raises what the write raises when not.
\<close>

theorem dialect_detection_priority:
  assumes "read_document L path fs = Inr (JObj d)"
  shows "(set (map fst d) \<inter> set french_sentinels \<noteq> {} \<longrightarrow>
            load L path fs =
              (case migrate_french_to_english (JObj d) of
                 Inl e \<Rightarrow> (Inl e, fs)
               | Inr d' \<Rightarrow>
                   if utf8_encodable (json_dumps L d')
                   then (Inr d', fs(path \<mapsto> Text (json_dumps L d')))
                   else (Inl UnicodeEncodeError, fs(path \<mapsto> Text (json_dump_cut L d')))))
       \<and> (set (map fst d) \<inter> set french_sentinels = {} \<longrightarrow>
            set (map fst d) \<inter> set spanish_sentinels \<noteq> {} \<longrightarrow>
            load L path fs =
              (case migrate_spanish_to_english (JObj d) of
                 Inl e \<Rightarrow> (Inl e, fs)
               | Inr d' \<Rightarrow>
                   if utf8_encodable (json_dumps L d')
                   then (Inr d', fs(path \<mapsto> Text (json_dumps L d')))
                   else (Inl UnicodeEncodeError, fs(path \<mapsto> Text (json_dump_cut L d')))))
       \<and> (set (map fst d) \<inter> set french_sentinels = {} \<longrightarrow>
            set (map fst d) \<inter> set spanish_sentinels = {} \<longrightarrow>
            load L path fs = (Inr (JObj d), fs))"
  using assms
  by (simp add: load_def looks_french_schema_dict looks_spanish_schema_dict save_and_return_eq
      split: sum.splits)

lemma dict_get_missing: "k \<notin> set (map fst d) \<Longrightarrow> dict_get d k dflt = dflt"
  by (simp add: dict_get_def map_of_eq_None_iff [THEN iffD2])

lemma dict_get_present: "map_of d k = Some v \<Longrightarrow> dict_get d k dflt = v"
  by (simp add: dict_get_def)

lemma is_dict_obtain: "is_dict v \<Longrightarrow> \<exists>x. v = JObj x"
  by (cases v) simp_all

lemma all_dicts_obtain: "list_all is_dict ys \<Longrightarrow> \<exists>xs. ys = map JObj xs"
proof (induction ys)
  case Nil
  then show ?case by simp
next
  case (Cons y ys)
  then obtain xs where "ys = map JObj xs" by auto
  moreover from Cons.prems obtain x where "y = JObj x" using is_dict_obtain by auto
  ultimately have "y # ys = map JObj (x # xs)" by simp
  then show ?case by (rule exI)
qed

lemma is_dict_list_obtain: "is_dict_list v \<Longrightarrow> \<exists>xs. v = JArr (map JObj xs)"
  by (cases v) (simp_all add: all_dicts_obtain)

lemma for_each_french: "for_each migrate_experience_fr (map JObj xs) = Inr (map french_experience xs)"
  by (induction xs) simp_all

lemma for_each_spanish: "for_each migrate_experience_es (map JObj xs) = Inr (map spanish_experience xs)"
  by (induction xs) simp_all

lemma migrate_french_explicit:
  assumes "dict_get d (u ''identite'') (JObj []) = JObj i"
      and "dict_get d (u ''competences'') (JObj []) = JObj c"
      and "dict_get d (u ''experiences'') (JArr []) = JArr (map JObj xs)"
  shows "migrate_french_to_english (JObj d) = Inr (JObj
           [(u ''identity'', JObj
               [(u ''name'', dict_get i (u ''nom'') JNull),
                (u ''title'', dict_get i (u ''titre'') JNull)]),
            (u ''long_profile'', dict_get d (u ''profil_long'') JNull),
            (u ''experiences'', JArr (map french_experience xs)),
            (u ''skills'', JObj
               [(u ''technical'', dict_get c (u ''techniques'') (JArr [])),
                (u ''methodological'', dict_get c (u ''methodologiques'') (JArr []))]),
            (u ''education'', dict_get d (u ''formation'') JNull),
            (u ''languages'', dict_get d (u ''langues'') (JArr [])),
            (u ''interests'',
               if dict_get d (u ''centres_interet'') JNull \<noteq> JNull
               then dict_get d (u ''centres_interet'') JNull else JArr []),
            (u ''memory_notes'', dict_get d (u ''memory_notes'') (JObj []))])"
  using assms by (simp add: Let_def ebind_def for_each_french)

lemma migrate_spanish_explicit:
  assumes "dict_get d (u ''identidad'') (JObj []) = JObj i"
      and "dict_get d (u ''competencias'') (JObj []) = JObj c"
      and "dict_get d (u ''experiencias'') (JArr []) = JArr (map JObj xs)"
  shows "migrate_spanish_to_english (JObj d) = Inr (JObj
           [(u ''identity'', JObj
               [(u ''name'', dict_get i (u ''nombre'') JNull),
                (u ''title'', dict_get i (u ''titulo'') JNull)]),
            (u ''long_profile'', dict_get d (u ''perfil_largo'') JNull),
            (u ''experiences'', JArr (map spanish_experience xs)),
            (u ''skills'', JObj
               [(u ''technical'', dict_get c (u ''tecnicas'') (JArr [])),
                (u ''methodological'', dict_get c (u ''metodologicas'') (JArr []))]),
            (u ''education'', dict_get d (u ''formacion'') JNull),
            (u ''languages'', dict_get d (u ''idiomas'') (JArr [])),
            (u ''interests'',
               if dict_get d (u ''intereses'') JNull \<noteq> JNull
               then dict_get d (u ''intereses'') JNull else JArr []),
            (u ''memory_notes'', dict_get d (u ''memory_notes'') (JObj []))])"
  using assms by (simp add: Let_def ebind_def for_each_spanish)

lemma french_shape_obtain:
  assumes "french_shape d"
  obtains i c xs where "dict_get d (u ''identite'') (JObj []) = JObj i"
      and "dict_get d (u ''competences'') (JObj []) = JObj c"
      and "dict_get d (u ''experiences'') (JArr []) = JArr (map JObj xs)"
  using assms is_dict_obtain is_dict_list_obtain unfolding french_shape_def by metis

lemma spanish_shape_obtain:
  assumes "spanish_shape d"
  obtains i c xs where "dict_get d (u ''identidad'') (JObj []) = JObj i"
      and "dict_get d (u ''competencias'') (JObj []) = JObj c"
      and "dict_get d (u ''experiencias'') (JArr []) = JArr (map JObj xs)"
  using assms is_dict_obtain is_dict_list_obtain unfolding spanish_shape_def by metis

lemma migrate_french_shape:
  assumes "french_shape d"
  shows "\<exists>c. migrate_french_to_english (JObj d) = Inr (JObj c) \<and> map fst c = canonical_keys"
proof -
  from assms obtain i c xs where "dict_get d (u ''identite'') (JObj []) = JObj i"
      and "dict_get d (u ''competences'') (JObj []) = JObj c"
      and "dict_get d (u ''experiences'') (JArr []) = JArr (map JObj xs)"
    by (rule french_shape_obtain)
  from migrate_french_explicit [OF this] show ?thesis
    by (simp add: canonical_keys_def del: migrate_french_to_english.simps)
qed

lemma migrate_ana_french:
  "migrate_french_to_english (JObj (ana_french (JStr p) es (JStr f)))
     = Inr (JObj (ana_canonical (JStr p) (map french_experience es) (JStr f)))"
  by (simp add: ana_french_def ana_canonical_def dict_get_def Let_def ebind_def for_each_french)

text \<open>
  Claim C4, amended. Self-healing load: when the file holds a French document with the
  sentinel key \<open>identite\<close> (well shaped, so that the migration does not raise), the
  migration gives a document \<open>c\<close> with exactly the canonical keys, and \<^verbatim>\<open>load\<close> writes it
  back. When the text of \<open>c\<close> holds no surrogate, \<^verbatim>\<open>load\<close> returns \<open>c\<close> and the file holds the
  text of \<open>c\<close> afterwards, so that a raw read of the file shows \<open>c\<close> (\<^verbatim>\<open>json\<close> reading a
  document back from its text). When the text of \<open>c\<close> holds a surrogate, \<^verbatim>\<open>load\<close> raises
  UnicodeEncodeError and leaves the file cut. For the document of the scenario, the
  result is the canonical document of the scenario.
\<close>

theorem load_self_healing:
  "(read_document L path fs = Inr (JObj d) \<longrightarrow> u ''identite'' \<in> set (map fst d) \<longrightarrow> french_shape d \<longrightarrow>
      (\<exists>c. migrate_french_to_english (JObj d) = Inr (JObj c)
           \<and> map fst c = canonical_keys
           \<and> set (map fst c) \<inter> set (french_sentinels @ spanish_sentinels) = {}
           \<and> load L path fs =
               (if utf8_encodable (json_dumps L (JObj c))
                then (Inr (JObj c), fs(path \<mapsto> Text (json_dumps L (JObj c))))
                else (Inl UnicodeEncodeError, fs(path \<mapsto> Text (json_dump_cut L (JObj c)))))
           \<and> (utf8_encodable (json_dumps L (JObj c)) \<longrightarrow>
               json_loads L (json_dumps L (JObj c)) = Some (JObj c) \<longrightarrow>
                 read_document L path (snd (load L path fs)) = Inr (JObj c))))
   \<and> (json_loads L t = Some (JObj (ana_french (JStr p) es (JStr f))) \<longrightarrow>
       utf8_encodable
         (json_dumps L (JObj (ana_canonical (JStr p) (map french_experience es) (JStr f)))) \<longrightarrow>
         load L path (fs(path \<mapsto> Text t))
           = (Inr (JObj (ana_canonical (JStr p) (map french_experience es) (JStr f))),
              fs(path \<mapsto> Text
                (json_dumps L (JObj (ana_canonical (JStr p) (map french_experience es) (JStr f)))))))"
proof (intro conjI impI)
  assume held: "read_document L path fs = Inr (JObj d)"
    and sentinel: "u ''identite'' \<in> set (map fst d)"
    and shape: "french_shape d"
  from shape obtain c where c: "migrate_french_to_english (JObj d) = Inr (JObj c)"
    and keys: "map fst c = canonical_keys"
    using migrate_french_shape by blast
  from sentinel have "set (map fst d) \<inter> set french_sentinels \<noteq> {}"
    by (auto simp add: french_sentinels_def)
  with held c have loaded: "load L path fs =
               (if utf8_encodable (json_dumps L (JObj c))
                then (Inr (JObj c), fs(path \<mapsto> Text (json_dumps L (JObj c))))
                else (Inl UnicodeEncodeError, fs(path \<mapsto> Text (json_dump_cut L (JObj c)))))"
    by (simp add: load_def looks_french_schema_dict save_and_return_eq
        del: migrate_french_to_english.simps)
  have clean: "set (map fst c) \<inter> set (french_sentinels @ spanish_sentinels) = {}"
    using keys canonical_keys_no_sentinel by auto
  have raw: "read_document L path (snd (load L path fs)) = Inr (JObj c)"
    if "utf8_encodable (json_dumps L (JObj c))"
      and "json_loads L (json_dumps L (JObj c)) = Some (JObj c)"
    using that loaded by (simp add: read_document_written)
  from c keys clean loaded raw
  show "\<exists>c. migrate_french_to_english (JObj d) = Inr (JObj c)
           \<and> map fst c = canonical_keys
           \<and> set (map fst c) \<inter> set (french_sentinels @ spanish_sentinels) = {}
           \<and> load L path fs =
               (if utf8_encodable (json_dumps L (JObj c))
                then (Inr (JObj c), fs(path \<mapsto> Text (json_dumps L (JObj c))))
                else (Inl UnicodeEncodeError, fs(path \<mapsto> Text (json_dump_cut L (JObj c)))))
           \<and> (utf8_encodable (json_dumps L (JObj c)) \<longrightarrow>
               json_loads L (json_dumps L (JObj c)) = Some (JObj c) \<longrightarrow>
                 read_document L path (snd (load L path fs)) = Inr (JObj c))"
    by blast
next
  assume read: "json_loads L t = Some (JObj (ana_french (JStr p) es (JStr f)))"
    and encodable: "utf8_encodable
         (json_dumps L (JObj (ana_canonical (JStr p) (map french_experience es) (JStr f))))"
  have french: "looks_french_schema (JObj (ana_french (JStr p) es (JStr f))) = Inr True"
    by (simp add: ana_french_def looks_french_schema_def french_sentinels_def)
  have held: "read_document L path (fs(path \<mapsto> Text t))
                = Inr (JObj (ana_french (JStr p) es (JStr f)))"
    using read by (simp add: read_document_written)
  show "load L path (fs(path \<mapsto> Text t))
           = (Inr (JObj (ana_canonical (JStr p) (map french_experience es) (JStr f))),
              fs(path \<mapsto> Text
                (json_dumps L (JObj (ana_canonical (JStr p) (map french_experience es) (JStr f))))))"
    using french encodable
    by (simp add: load_def held migrate_ana_french save_and_return_eq
        del: migrate_french_to_english.simps)
qed




lemma migrate_french_total:
  assumes "french_shape d"
  shows "\<exists>name title long_profile exps technical methodological education languages interests notes.
      migrate_french_to_english (JObj d) = Inr (JObj
        [(u ''identity'', JObj [(u ''name'', name), (u ''title'', title)]),
         (u ''long_profile'', long_profile),
         (u ''experiences'', JArr exps),
         (u ''skills'', JObj
            [(u ''technical'', technical), (u ''methodological'', methodological)]),
         (u ''education'', education),
         (u ''languages'', languages),
         (u ''interests'', interests),
         (u ''memory_notes'', notes)])
    \<and> (\<forall>i. dict_get d (u ''identite'') (JObj []) = JObj i \<longrightarrow>
           (u ''nom'' \<notin> set (map fst i) \<longrightarrow> name = JNull)
         \<and> (u ''titre'' \<notin> set (map fst i) \<longrightarrow> title = JNull))
    \<and> (u ''profil_long'' \<notin> set (map fst d) \<longrightarrow> long_profile = JNull)
    \<and> (\<exists>xs. dict_get d (u ''experiences'') (JArr []) = JArr (map JObj xs)
           \<and> exps = map french_experience xs)
    \<and> (u ''experiences'' \<notin> set (map fst d) \<longrightarrow> exps = [])
    \<and> (\<forall>c. dict_get d (u ''competences'') (JObj []) = JObj c \<longrightarrow>
           (u ''techniques'' \<notin> set (map fst c) \<longrightarrow> technical = JArr [])
         \<and> (u ''methodologiques'' \<notin> set (map fst c) \<longrightarrow> methodological = JArr []))
    \<and> (u ''formation'' \<notin> set (map fst d) \<longrightarrow> education = JNull)
    \<and> (u ''langues'' \<notin> set (map fst d) \<longrightarrow> languages = JArr [])
    \<and> (u ''centres_interet'' \<notin> set (map fst d) \<longrightarrow> interests = JArr [])
    \<and> (u ''memory_notes'' \<notin> set (map fst d) \<longrightarrow> notes = JObj [])"
proof -
  from assms obtain i c xs where i: "dict_get d (u ''identite'') (JObj []) = JObj i"
      and c: "dict_get d (u ''competences'') (JObj []) = JObj c"
      and xs: "dict_get d (u ''experiences'') (JArr []) = JArr (map JObj xs)"
    by (rule french_shape_obtain)
  note out = migrate_french_explicit [OF i c xs]
  have ident: "\<forall>j. dict_get d (u ''identite'') (JObj []) = JObj j \<longrightarrow>
           (u ''nom'' \<notin> set (map fst j) \<longrightarrow> dict_get i (u ''nom'') JNull = JNull)
         \<and> (u ''titre'' \<notin> set (map fst j) \<longrightarrow> dict_get i (u ''titre'') JNull = JNull)"
    using i by (auto simp add: dict_get_missing)
  have lp: "u ''profil_long'' \<notin> set (map fst d) \<longrightarrow> dict_get d (u ''profil_long'') JNull = JNull"
    by (simp add: dict_get_missing)
  have ex2: "u ''experiences'' \<notin> set (map fst d) \<longrightarrow> map french_experience xs = []"
  proof
    assume "u ''experiences'' \<notin> set (map fst d)"
    then have "dict_get d (u ''experiences'') (JArr []) = JArr []"
      by (rule dict_get_missing)
    with xs show "map french_experience xs = []" by simp
  qed
  have comp: "\<forall>k. dict_get d (u ''competences'') (JObj []) = JObj k \<longrightarrow>
           (u ''techniques'' \<notin> set (map fst k) \<longrightarrow> dict_get c (u ''techniques'') (JArr []) = JArr [])
         \<and> (u ''methodologiques'' \<notin> set (map fst k) \<longrightarrow>
              dict_get c (u ''methodologiques'') (JArr []) = JArr [])"
    using c by (auto simp add: dict_get_missing)
  have edu: "u ''formation'' \<notin> set (map fst d) \<longrightarrow> dict_get d (u ''formation'') JNull = JNull"
    by (simp add: dict_get_missing)
  have lang: "u ''langues'' \<notin> set (map fst d) \<longrightarrow> dict_get d (u ''langues'') (JArr []) = JArr []"
    by (simp add: dict_get_missing)
  have int: "u ''centres_interet'' \<notin> set (map fst d) \<longrightarrow>
      (if dict_get d (u ''centres_interet'') JNull \<noteq> JNull
       then dict_get d (u ''centres_interet'') JNull else JArr []) = JArr []"
    by (simp add: dict_get_missing)
  have mn: "u ''memory_notes'' \<notin> set (map fst d) \<longrightarrow>
      dict_get d (u ''memory_notes'') (JObj []) = JObj []"
    by (simp add: dict_get_missing)
  show ?thesis
    apply (intro exI conjI)
             apply (rule out)
            apply (rule ident)
           apply (rule lp)
          apply (rule xs)
         apply (rule refl)
        apply (rule ex2)
       apply (rule comp)
      apply (rule edu)
     apply (rule lang)
    apply (rule int)
    apply (rule mn)
    done
qed

lemma migrate_spanish_total:
  assumes "spanish_shape d"
  shows "\<exists>name title long_profile exps technical methodological education languages interests notes.
      migrate_spanish_to_english (JObj d) = Inr (JObj
        [(u ''identity'', JObj [(u ''name'', name), (u ''title'', title)]),
         (u ''long_profile'', long_profile),
         (u ''experiences'', JArr exps),
         (u ''skills'', JObj
            [(u ''technical'', technical), (u ''methodological'', methodological)]),
         (u ''education'', education),
         (u ''languages'', languages),
         (u ''interests'', interests),
         (u ''memory_notes'', notes)])
    \<and> (\<forall>i. dict_get d (u ''identidad'') (JObj []) = JObj i \<longrightarrow>
           (u ''nombre'' \<notin> set (map fst i) \<longrightarrow> name = JNull)
         \<and> (u ''titulo'' \<notin> set (map fst i) \<longrightarrow> title = JNull))
    \<and> (u ''perfil_largo'' \<notin> set (map fst d) \<longrightarrow> long_profile = JNull)
    \<and> (\<exists>xs. dict_get d (u ''experiencias'') (JArr []) = JArr (map JObj xs)
           \<and> exps = map spanish_experience xs)
    \<and> (u ''experiencias'' \<notin> set (map fst d) \<longrightarrow> exps = [])
    \<and> (\<forall>c. dict_get d (u ''competencias'') (JObj []) = JObj c \<longrightarrow>
           (u ''tecnicas'' \<notin> set (map fst c) \<longrightarrow> technical = JArr [])
         \<and> (u ''metodologicas'' \<notin> set (map fst c) \<longrightarrow> methodological = JArr []))
    \<and> (u ''formacion'' \<notin> set (map fst d) \<longrightarrow> education = JNull)
    \<and> (u ''idiomas'' \<notin> set (map fst d) \<longrightarrow> languages = JArr [])
    \<and> (u ''intereses'' \<notin> set (map fst d) \<longrightarrow> interests = JArr [])
    \<and> (u ''memory_notes'' \<notin> set (map fst d) \<longrightarrow> notes = JObj [])"
proof -
  from assms obtain i c xs where i: "dict_get d (u ''identidad'') (JObj []) = JObj i"
      and c: "dict_get d (u ''competencias'') (JObj []) = JObj c"
      and xs: "dict_get d (u ''experiencias'') (JArr []) = JArr (map JObj xs)"
    by (rule spanish_shape_obtain)
  note out = migrate_spanish_explicit [OF i c xs]
  have ident: "\<forall>j. dict_get d (u ''identidad'') (JObj []) = JObj j \<longrightarrow>
           (u ''nombre'' \<notin> set (map fst j) \<longrightarrow> dict_get i (u ''nombre'') JNull = JNull)
         \<and> (u ''titulo'' \<notin> set (map fst j) \<longrightarrow> dict_get i (u ''titulo'') JNull = JNull)"
    using i by (auto simp add: dict_get_missing)
  have lp: "u ''perfil_largo'' \<notin> set (map fst d) \<longrightarrow> dict_get d (u ''perfil_largo'') JNull = JNull"
    by (simp add: dict_get_missing)
  have ex2: "u ''experiencias'' \<notin> set (map fst d) \<longrightarrow> map spanish_experience xs = []"
  proof
    assume "u ''experiencias'' \<notin> set (map fst d)"
    then have "dict_get d (u ''experiencias'') (JArr []) = JArr []"
      by (rule dict_get_missing)
    with xs show "map spanish_experience xs = []" by simp
  qed
  have comp: "\<forall>k. dict_get d (u ''competencias'') (JObj []) = JObj k \<longrightarrow>
           (u ''tecnicas'' \<notin> set (map fst k) \<longrightarrow> dict_get c (u ''tecnicas'') (JArr []) = JArr [])
         \<and> (u ''metodologicas'' \<notin> set (map fst k) \<longrightarrow>
              dict_get c (u ''metodologicas'') (JArr []) = JArr [])"
    using c by (auto simp add: dict_get_missing)
  have edu: "u ''formacion'' \<notin> set (map fst d) \<longrightarrow> dict_get d (u ''formacion'') JNull = JNull"
    by (simp add: dict_get_missing)
  have lang: "u ''idiomas'' \<notin> set (map fst d) \<longrightarrow> dict_get d (u ''idiomas'') (JArr []) = JArr []"
    by (simp add: dict_get_missing)
  have int: "u ''intereses'' \<notin> set (map fst d) \<longrightarrow>
      (if dict_get d (u ''intereses'') JNull \<noteq> JNull
       then dict_get d (u ''intereses'') JNull else JArr []) = JArr []"
    by (simp add: dict_get_missing)
  have mn: "u ''memory_notes'' \<notin> set (map fst d) \<longrightarrow>
      dict_get d (u ''memory_notes'') (JObj []) = JObj []"
    by (simp add: dict_get_missing)
  show ?thesis
    apply (intro exI conjI)
             apply (rule out)
            apply (rule ident)
           apply (rule lp)
          apply (rule xs)
         apply (rule refl)
        apply (rule ex2)
       apply (rule comp)
      apply (rule edu)
     apply (rule lang)
    apply (rule int)
    apply (rule mn)
    done
qed

text \<open>
  Claim C2, amended. On a mapping with a recognised sentinel key whose identity and skills
  are mappings and whose experiences are a sequence of mappings (each when present), the
  migration does not raise, and returns a mapping with exactly the canonical keys:
  identity with name and title, long\_profile, experiences, skills with technical and
  methodological, education, languages, interests, memory\_notes. A missing source field
  gives null for name, title, long\_profile and education (and for the company, location,
  role and dates of an experience), the empty sequence for experiences, technical,
  methodological, languages, interests (and the missions of an experience), and the empty
  mapping for memory\_notes.
\<close>

theorem migrate_total_on_well_shaped:
  "(set (map fst d) \<inter> set french_sentinels \<noteq> {} \<longrightarrow> french_shape d \<longrightarrow>
    (\<exists>name title long_profile exps technical methodological education languages interests notes.
      migrate (JObj d) = Inr (JObj
        [(u ''identity'', JObj [(u ''name'', name), (u ''title'', title)]),
         (u ''long_profile'', long_profile),
         (u ''experiences'', JArr exps),
         (u ''skills'', JObj
            [(u ''technical'', technical), (u ''methodological'', methodological)]),
         (u ''education'', education),
         (u ''languages'', languages),
         (u ''interests'', interests),
         (u ''memory_notes'', notes)])
    \<and> (\<forall>i. dict_get d (u ''identite'') (JObj []) = JObj i \<longrightarrow>
           (u ''nom'' \<notin> set (map fst i) \<longrightarrow> name = JNull)
         \<and> (u ''titre'' \<notin> set (map fst i) \<longrightarrow> title = JNull))
    \<and> (u ''profil_long'' \<notin> set (map fst d) \<longrightarrow> long_profile = JNull)
    \<and> (\<exists>xs. dict_get d (u ''experiences'') (JArr []) = JArr (map JObj xs)
           \<and> exps = map french_experience xs)
    \<and> (u ''experiences'' \<notin> set (map fst d) \<longrightarrow> exps = [])
    \<and> (\<forall>c. dict_get d (u ''competences'') (JObj []) = JObj c \<longrightarrow>
           (u ''techniques'' \<notin> set (map fst c) \<longrightarrow> technical = JArr [])
         \<and> (u ''methodologiques'' \<notin> set (map fst c) \<longrightarrow> methodological = JArr []))
    \<and> (u ''formation'' \<notin> set (map fst d) \<longrightarrow> education = JNull)
    \<and> (u ''langues'' \<notin> set (map fst d) \<longrightarrow> languages = JArr [])
    \<and> (u ''centres_interet'' \<notin> set (map fst d) \<longrightarrow> interests = JArr [])
    \<and> (u ''memory_notes'' \<notin> set (map fst d) \<longrightarrow> notes = JObj [])))
 \<and> (set (map fst d) \<inter> set french_sentinels = {} \<longrightarrow>
    set (map fst d) \<inter> set spanish_sentinels \<noteq> {} \<longrightarrow> spanish_shape d \<longrightarrow>
    (\<exists>name title long_profile exps technical methodological education languages interests notes.
      migrate (JObj d) = Inr (JObj
        [(u ''identity'', JObj [(u ''name'', name), (u ''title'', title)]),
         (u ''long_profile'', long_profile),
         (u ''experiences'', JArr exps),
         (u ''skills'', JObj
            [(u ''technical'', technical), (u ''methodological'', methodological)]),
         (u ''education'', education),
         (u ''languages'', languages),
         (u ''interests'', interests),
         (u ''memory_notes'', notes)])
    \<and> (\<forall>i. dict_get d (u ''identidad'') (JObj []) = JObj i \<longrightarrow>
           (u ''nombre'' \<notin> set (map fst i) \<longrightarrow> name = JNull)
         \<and> (u ''titulo'' \<notin> set (map fst i) \<longrightarrow> title = JNull))
    \<and> (u ''perfil_largo'' \<notin> set (map fst d) \<longrightarrow> long_profile = JNull)
    \<and> (\<exists>xs. dict_get d (u ''experiencias'') (JArr []) = JArr (map JObj xs)
           \<and> exps = map spanish_experience xs)
    \<and> (u ''experiencias'' \<notin> set (map fst d) \<longrightarrow> exps = [])
    \<and> (\<forall>c. dict_get d (u ''competencias'') (JObj []) = JObj c \<longrightarrow>
           (u ''tecnicas'' \<notin> set (map fst c) \<longrightarrow> technical = JArr [])
         \<and> (u ''metodologicas'' \<notin> set (map fst c) \<longrightarrow> methodological = JArr []))
    \<and> (u ''formacion'' \<notin> set (map fst d) \<longrightarrow> education = JNull)
    \<and> (u ''idiomas'' \<notin> set (map fst d) \<longrightarrow> languages = JArr [])
    \<and> (u ''intereses'' \<notin> set (map fst d) \<longrightarrow> interests = JArr [])
    \<and> (u ''memory_notes'' \<notin> set (map fst d) \<longrightarrow> notes = JObj [])))
 \<and> french_experience [] = JObj
      [(u ''company'', JNull), (u ''location'', JNull), (u ''role'', JNull),
       (u ''dates'', JNull), (u ''missions'', JArr [])]
 \<and> spanish_experience [] = JObj
      [(u ''company'', JNull), (u ''location'', JNull), (u ''role'', JNull),
       (u ''dates'', JNull), (u ''missions'', JArr [])]"
proof (intro conjI impI)
  assume "set (map fst d) \<inter> set french_sentinels \<noteq> {}" and shape: "french_shape d"
  then have dispatch: "migrate (JObj d) = migrate_french_to_english (JObj d)"
    by (simp add: migrate_def ebind_def looks_french_schema_dict)
  show "\<exists>name title long_profile exps technical methodological education languages interests notes.
      migrate (JObj d) = Inr (JObj
        [(u ''identity'', JObj [(u ''name'', name), (u ''title'', title)]),
         (u ''long_profile'', long_profile),
         (u ''experiences'', JArr exps),
         (u ''skills'', JObj
            [(u ''technical'', technical), (u ''methodological'', methodological)]),
         (u ''education'', education),
         (u ''languages'', languages),
         (u ''interests'', interests),
         (u ''memory_notes'', notes)])
    \<and> (\<forall>i. dict_get d (u ''identite'') (JObj []) = JObj i \<longrightarrow>
           (u ''nom'' \<notin> set (map fst i) \<longrightarrow> name = JNull)
         \<and> (u ''titre'' \<notin> set (map fst i) \<longrightarrow> title = JNull))
    \<and> (u ''profil_long'' \<notin> set (map fst d) \<longrightarrow> long_profile = JNull)
    \<and> (\<exists>xs. dict_get d (u ''experiences'') (JArr []) = JArr (map JObj xs)
           \<and> exps = map french_experience xs)
    \<and> (u ''experiences'' \<notin> set (map fst d) \<longrightarrow> exps = [])
    \<and> (\<forall>c. dict_get d (u ''competences'') (JObj []) = JObj c \<longrightarrow>
           (u ''techniques'' \<notin> set (map fst c) \<longrightarrow> technical = JArr [])
         \<and> (u ''methodologiques'' \<notin> set (map fst c) \<longrightarrow> methodological = JArr []))
    \<and> (u ''formation'' \<notin> set (map fst d) \<longrightarrow> education = JNull)
    \<and> (u ''langues'' \<notin> set (map fst d) \<longrightarrow> languages = JArr [])
    \<and> (u ''centres_interet'' \<notin> set (map fst d) \<longrightarrow> interests = JArr [])
    \<and> (u ''memory_notes'' \<notin> set (map fst d) \<longrightarrow> notes = JObj [])"
    unfolding dispatch by (rule migrate_french_total [OF shape])
next
  assume "set (map fst d) \<inter> set french_sentinels = {}"
    and "set (map fst d) \<inter> set spanish_sentinels \<noteq> {}" and shape: "spanish_shape d"
  then have dispatch: "migrate (JObj d) = migrate_spanish_to_english (JObj d)"
    by (simp add: migrate_def ebind_def looks_french_schema_dict looks_spanish_schema_dict)
  show "\<exists>name title long_profile exps technical methodological education languages interests notes.
      migrate (JObj d) = Inr (JObj
        [(u ''identity'', JObj [(u ''name'', name), (u ''title'', title)]),
         (u ''long_profile'', long_profile),
         (u ''experiences'', JArr exps),
         (u ''skills'', JObj
            [(u ''technical'', technical), (u ''methodological'', methodological)]),
         (u ''education'', education),
         (u ''languages'', languages),
         (u ''interests'', interests),
         (u ''memory_notes'', notes)])
    \<and> (\<forall>i. dict_get d (u ''identidad'') (JObj []) = JObj i \<longrightarrow>
           (u ''nombre'' \<notin> set (map fst i) \<longrightarrow> name = JNull)
         \<and> (u ''titulo'' \<notin> set (map fst i) \<longrightarrow> title = JNull))
    \<and> (u ''perfil_largo'' \<notin> set (map fst d) \<longrightarrow> long_profile = JNull)
    \<and> (\<exists>xs. dict_get d (u ''experiencias'') (JArr []) = JArr (map JObj xs)
           \<and> exps = map spanish_experience xs)
    \<and> (u ''experiencias'' \<notin> set (map fst d) \<longrightarrow> exps = [])
    \<and> (\<forall>c. dict_get d (u ''competencias'') (JObj []) = JObj c \<longrightarrow>
           (u ''tecnicas'' \<notin> set (map fst c) \<longrightarrow> technical = JArr [])
         \<and> (u ''metodologicas'' \<notin> set (map fst c) \<longrightarrow> methodological = JArr []))
    \<and> (u ''formacion'' \<notin> set (map fst d) \<longrightarrow> education = JNull)
    \<and> (u ''idiomas'' \<notin> set (map fst d) \<longrightarrow> languages = JArr [])
    \<and> (u ''intereses'' \<notin> set (map fst d) \<longrightarrow> interests = JArr [])
    \<and> (u ''memory_notes'' \<notin> set (map fst d) \<longrightarrow> notes = JObj [])"
    unfolding dispatch by (rule migrate_spanish_total [OF shape])
next
  show "french_experience [] = JObj
      [(u ''company'', JNull), (u ''location'', JNull), (u ''role'', JNull),
       (u ''dates'', JNull), (u ''missions'', JArr [])]"
    by (simp add: french_experience_def dict_get_def)
next
  show "spanish_experience [] = JObj
      [(u ''company'', JNull), (u ''location'', JNull), (u ''role'', JNull),
       (u ''dates'', JNull), (u ''missions'', JArr [])]"
    by (simp add: spanish_experience_def dict_get_def)
qed

theorem migrate_total_on_well_shaped_witness:
  "set (map fst [(u ''identite'', JObj [])]) \<inter> set french_sentinels \<noteq> {}
   \<and> french_shape [(u ''identite'', JObj [])]
   \<and> migrate (JObj [(u ''identite'', JObj [])]) = Inr (JObj
        [(u ''identity'', JObj [(u ''name'', JNull), (u ''title'', JNull)]),
         (u ''long_profile'', JNull),
         (u ''experiences'', JArr []),
         (u ''skills'', JObj [(u ''technical'', JArr []), (u ''methodological'', JArr [])]),
         (u ''education'', JNull),
         (u ''languages'', JArr []),
         (u ''interests'', JArr []),
         (u ''memory_notes'', JObj [])])"
proof -
  have sentinel: "set (map fst [(u ''identite'', JObj [])]) \<inter> set french_sentinels \<noteq> {}"
    by (simp add: french_sentinels_def)
  have shape: "french_shape [(u ''identite'', JObj [])]"
    by (simp add: french_shape_def dict_get_def)
  from migrate_total_on_well_shaped [of "[(u ''identite'', JObj [])]", THEN conjunct1, rule_format,
      OF sentinel shape]
  have "migrate (JObj [(u ''identite'', JObj [])]) = Inr (JObj
        [(u ''identity'', JObj [(u ''name'', JNull), (u ''title'', JNull)]),
         (u ''long_profile'', JNull),
         (u ''experiences'', JArr []),
         (u ''skills'', JObj [(u ''technical'', JArr []), (u ''methodological'', JArr [])]),
         (u ''education'', JNull),
         (u ''languages'', JArr []),
         (u ''interests'', JArr []),
         (u ''memory_notes'', JObj [])])"
    by (simp add: dict_get_def)
  with sentinel shape show ?thesis by blast
qed

text \<open>
  Claim C2 as stated fails twice. A document whose \<open>identite\<close> is null matches the
  detection and the migration raises AttributeError. And where the migration succeeds, a
  missing scalar field becomes null, not the empty string.
\<close>

theorem migrate_total_counterexample:
  "looks_french_schema (JObj [(u ''identite'', JNull)]) = Inr True
   \<and> migrate (JObj [(u ''identite'', JNull)]) = Inl AttributeError
   \<and> looks_french_schema (JObj [(u ''identite'', JObj [])]) = Inr True
   \<and> migrate (JObj [(u ''identite'', JObj [])]) = Inr (JObj
        [(u ''identity'', JObj [(u ''name'', JNull), (u ''title'', JNull)]),
         (u ''long_profile'', JNull),
         (u ''experiences'', JArr []),
         (u ''skills'', JObj [(u ''technical'', JArr []), (u ''methodological'', JArr [])]),
         (u ''education'', JNull),
         (u ''languages'', JArr []),
         (u ''interests'', JArr []),
         (u ''memory_notes'', JObj [])])"
  by (simp add: migrate_def looks_french_schema_def french_sentinels_def ebind_def
      dict_get_def Let_def)

subsection \<open>The theorems of the profile store at concrete documents\<close>

lemma sample_experience_migrated: "french_experience sample_experience_fr = sample_experience_en"
  by (simp add: french_experience_def sample_experience_fr_def sample_experience_en_def dict_get_def)

lemma sample_french_migrated:
  "migrate_french_to_english (JObj sample_french) = Inr (JObj sample_canonical)"
  using migrate_ana_french [of "u ''...''" "[sample_experience_fr]" "u ''...''"]
  by (simp add: sample_french_def sample_canonical_def sample_experience_migrated
      del: migrate_french_to_english.simps)

lemma sample_french_sentinel: "u ''identite'' \<in> set (map fst sample_french)"
  by (simp add: sample_french_def ana_french_def)

lemma sample_french_shape: "french_shape sample_french"
  by (simp add: french_shape_def sample_french_def ana_french_def dict_get_def)

lemma sample_canonical_keys: "map fst sample_canonical = canonical_keys"
  by (simp add: sample_canonical_def ana_canonical_def canonical_keys_def)

lemma sample_canonical_clean:
  "set (map fst sample_canonical) \<inter> set (french_sentinels @ spanish_sentinels) = {}"
  by (simp add: sample_canonical_def ana_canonical_def french_sentinels_def spanish_sentinels_def)


text \<open>What the table libraries read and write.\<close>

lemma ana_reads_french: "json_loads ana_library text_sample_french = Some (JObj sample_french)"
  by (simp add: ana_library_def table_library_def)

lemma ana_reads_canonical:
  "json_loads ana_library text_sample_canonical = Some (JObj sample_canonical)"
  by (simp add: ana_library_def table_library_def text_sample_french_def text_sample_canonical_def)




lemma ana_writes_canonical: "json_dumps ana_library (JObj sample_canonical) = text_sample_canonical"
  by (simp add: ana_library_def table_library_def)





lemma both_reads: "json_loads both_library text_both_dialects = Some (JObj both_dialects)"
  by (simp add: both_library_def table_library_def)

lemma both_writes:
  "json_dumps both_library (JObj both_dialects_migrated) = text_both_dialects_migrated"
  by (simp add: both_library_def table_library_def)

lemma surrogate_reads_french:
  "json_loads surrogate_library text_surrogate_french = Some (JObj surrogate_french)"
  by (simp add: surrogate_library_def table_library_def)

lemma surrogate_rejects_cut: "json_loads surrogate_library cut_surrogate_canonical = None"
  by (simp add: surrogate_library_def table_library_def text_surrogate_french_def
      text_surrogate_canonical_def cut_surrogate_canonical_def)

lemma surrogate_writes:
  "json_dumps surrogate_library (JObj surrogate_canonical) = text_surrogate_canonical"
  by (simp add: surrogate_library_def table_library_def)

lemma surrogate_cuts:
  "json_dump_cut surrogate_library (JObj surrogate_canonical) = cut_surrogate_canonical"
  by (simp add: surrogate_library_def table_library_def)

text \<open>Which of the texts a UTF-8 file takes.\<close>

lemma text_sample_canonical_encodable: "utf8_encodable text_sample_canonical"
  by (simp add: utf8_encodable_def is_surrogate_def text_sample_canonical_def)



lemma text_both_dialects_migrated_encodable: "utf8_encodable text_both_dialects_migrated"
  by (simp add: utf8_encodable_def is_surrogate_def text_both_dialects_migrated_def)

lemma text_surrogate_canonical_refused: "\<not> utf8_encodable text_surrogate_canonical"
  by (simp add: utf8_encodable_def is_surrogate_def text_surrogate_canonical_def)


text \<open>The migrations of the two small French documents.\<close>

lemma both_dialects_migration:
  "migrate_french_to_english (JObj both_dialects) = Inr (JObj both_dialects_migrated)"
  by (simp add: both_dialects_def both_dialects_migrated_def defaults_named_def dict_get_def
      Let_def ebind_def)

lemma surrogate_french_migration:
  "migrate_french_to_english (JObj surrogate_french) = Inr (JObj surrogate_canonical)"
  by (simp add: surrogate_french_def surrogate_canonical_def defaults_named_def dict_get_def
      Let_def ebind_def)

theorem load_self_healing_witness:
  "read_document ana_library profile_path (Map.empty(profile_path \<mapsto> Text text_sample_french))
      = Inr (JObj sample_french)
   \<and> u ''identite'' \<in> set (map fst sample_french)
   \<and> french_shape sample_french
   \<and> utf8_encodable (json_dumps ana_library (JObj sample_canonical))
   \<and> json_loads ana_library (json_dumps ana_library (JObj sample_canonical))
       = Some (JObj sample_canonical)
   \<and> load ana_library profile_path (Map.empty(profile_path \<mapsto> Text text_sample_french))
       = (Inr (JObj sample_canonical), Map.empty(profile_path \<mapsto> Text text_sample_canonical))
   \<and> read_document ana_library profile_path
        (snd (load ana_library profile_path (Map.empty(profile_path \<mapsto> Text text_sample_french))))
       = Inr (JObj sample_canonical)
   \<and> map fst sample_canonical = canonical_keys"
proof -
  let ?fs = "Map.empty(profile_path \<mapsto> Text text_sample_french)"
  have held: "read_document ana_library profile_path ?fs = Inr (JObj sample_french)"
    by (simp add: read_document_written ana_reads_french)
  have encodable: "utf8_encodable (json_dumps ana_library (JObj sample_canonical))"
    by (simp add: ana_writes_canonical text_sample_canonical_encodable)
  have reread: "json_loads ana_library (json_dumps ana_library (JObj sample_canonical))
       = Some (JObj sample_canonical)"
    by (simp add: ana_writes_canonical ana_reads_canonical)
  from load_self_healing [where L = ana_library and path = profile_path and fs = ?fs
      and d = sample_french, THEN conjunct1] held sample_french_sentinel sample_french_shape
  obtain c where c: "migrate_french_to_english (JObj sample_french) = Inr (JObj c)"
    and loaded: "load ana_library profile_path ?fs =
               (if utf8_encodable (json_dumps ana_library (JObj c))
                then (Inr (JObj c), ?fs(profile_path \<mapsto> Text (json_dumps ana_library (JObj c))))
                else (Inl UnicodeEncodeError,
                      ?fs(profile_path \<mapsto> Text (json_dump_cut ana_library (JObj c)))))"
    and raw: "utf8_encodable (json_dumps ana_library (JObj c)) \<longrightarrow>
               json_loads ana_library (json_dumps ana_library (JObj c)) = Some (JObj c) \<longrightarrow>
                 read_document ana_library profile_path (snd (load ana_library profile_path ?fs))
                   = Inr (JObj c)"
    by blast
  from c have same: "c = sample_canonical"
    by (simp add: sample_french_migrated del: migrate_french_to_english.simps)
  from loaded encodable have run: "load ana_library profile_path ?fs
       = (Inr (JObj sample_canonical), Map.empty(profile_path \<mapsto> Text text_sample_canonical))"
    by (simp add: same ana_writes_canonical)
  from raw encodable reread have again:
    "read_document ana_library profile_path (snd (load ana_library profile_path ?fs))
       = Inr (JObj sample_canonical)"
    by (simp add: same)
  from held sample_french_sentinel sample_french_shape encodable reread run again
    sample_canonical_keys
  show ?thesis by (simp only: simp_thms)
qed

text \<open>
  Claim C4 as stated does not hold. The file with the text \<open>text_surrogate_french\<close> holds a
  French document with the sentinel key \<open>identite\<close> whose name is a lone surrogate, written
  as an escape. \<^verbatim>\<open>load\<close> migrates it and raises UnicodeEncodeError while writing the result
  back; it returns no document, and the file is left with the beginning of the text,
  which \<^verbatim>\<open>json.load\<close> rejects.
\<close>

theorem load_self_healing_counterexample:
  "read_document surrogate_library profile_path
       (Map.empty(profile_path \<mapsto> Text text_surrogate_french))
      = Inr (JObj surrogate_french)
   \<and> u ''identite'' \<in> set (map fst surrogate_french)
   \<and> french_shape surrogate_french
   \<and> load surrogate_library profile_path (Map.empty(profile_path \<mapsto> Text text_surrogate_french))
       = (Inl UnicodeEncodeError, Map.empty(profile_path \<mapsto> Text cut_surrogate_canonical))
   \<and> read_document surrogate_library profile_path
        (Map.empty(profile_path \<mapsto> Text cut_surrogate_canonical))
       = Inl JSONDecodeError"
proof -
  let ?fs = "Map.empty(profile_path \<mapsto> Text text_surrogate_french)"
  have held: "read_document surrogate_library profile_path ?fs = Inr (JObj surrogate_french)"
    by (simp add: read_document_written surrogate_reads_french)
  have sentinel: "u ''identite'' \<in> set (map fst surrogate_french)"
    by (simp add: surrogate_french_def)
  have shape: "french_shape surrogate_french"
    by (simp add: french_shape_def surrogate_french_def dict_get_def)
  have french: "looks_french_schema (JObj surrogate_french) = Inr True"
    by (simp add: surrogate_french_def looks_french_schema_def french_sentinels_def)
  have run: "load surrogate_library profile_path ?fs
       = (Inl UnicodeEncodeError, Map.empty(profile_path \<mapsto> Text cut_surrogate_canonical))"
    by (simp add: load_def held french surrogate_french_migration save_and_return_eq
        surrogate_writes surrogate_cuts text_surrogate_canonical_refused
        del: migrate_french_to_english.simps)
  have raw: "read_document surrogate_library profile_path
        (Map.empty(profile_path \<mapsto> Text cut_surrogate_canonical)) = Inl JSONDecodeError"
    by (simp add: read_document_written surrogate_rejects_cut)
  from held sentinel shape run raw show ?thesis by (simp only: simp_thms)
qed



theorem migrate_idempotent_witness:
  "migrate (JObj sample_french) = Inr (JObj sample_canonical)
   \<and> ebind (migrate (JObj sample_french)) migrate = Inr (JObj sample_canonical)
   \<and> set (map fst sample_canonical) \<inter> set french_sentinels = {}
   \<and> set (map fst sample_canonical) \<inter> set spanish_sentinels = {}
   \<and> migrate (JObj sample_canonical) = Inr (JObj sample_canonical)
   \<and> read_document ana_library profile_path (Map.empty(profile_path \<mapsto> Text text_sample_french))
        = Inr (JObj sample_french)
   \<and> fst (load ana_library profile_path (Map.empty(profile_path \<mapsto> Text text_sample_french)))
        = Inr (JObj sample_canonical)"
proof -
  let ?fs = "Map.empty(profile_path \<mapsto> Text text_sample_french)"
  have fr: "set (map fst sample_canonical) \<inter> set french_sentinels = {}"
    and es: "set (map fst sample_canonical) \<inter> set spanish_sentinels = {}"
    using sample_canonical_clean by auto
  have sentinel: "set (map fst sample_french) \<inter> set french_sentinels \<noteq> {}"
    by (simp add: sample_french_def ana_french_def french_sentinels_def)
  have first: "migrate (JObj sample_french) = Inr (JObj sample_canonical)"
    using sentinel
    by (simp add: migrate_def ebind_def looks_french_schema_dict sample_french_migrated
        del: migrate_french_to_english.simps)
  have held: "read_document ana_library profile_path ?fs = Inr (JObj sample_french)"
    by (simp add: read_document_written ana_reads_french)
  have encodable: "utf8_encodable (json_dumps ana_library (JObj sample_canonical))"
    by (simp add: ana_writes_canonical text_sample_canonical_encodable)
  note idem = migrate_idempotent [where x = "JObj sample_french" and d = sample_canonical
      and L = ana_library and path = profile_path and fs = ?fs]
  from idem first have twice: "ebind (migrate (JObj sample_french)) migrate = Inr (JObj sample_canonical)"
    by simp
  from idem fr es have again: "migrate (JObj sample_canonical) = Inr (JObj sample_canonical)"
    by blast
  from idem held have "fst (load ana_library profile_path ?fs) =
          ebind (migrate (JObj sample_french))
            (\<lambda>y. if y = JObj sample_french \<or> utf8_encodable (json_dumps ana_library y) then Inr y
                  else Inl UnicodeEncodeError)"
    by blast
  with first encodable have loaded: "fst (load ana_library profile_path ?fs) = Inr (JObj sample_canonical)"
    by (simp add: ebind_def)
  from first twice fr es again held loaded show ?thesis by (simp only: simp_thms)
qed

theorem dialect_detection_priority_witness:
  "read_document both_library profile_path (Map.empty(profile_path \<mapsto> Text text_both_dialects))
     = Inr (JObj both_dialects)
   \<and> set (map fst both_dialects) \<inter> set french_sentinels \<noteq> {}
   \<and> set (map fst both_dialects) \<inter> set spanish_sentinels \<noteq> {}
   \<and> migrate_french_to_english (JObj both_dialects) = Inr (JObj both_dialects_migrated)
   \<and> map_of both_dialects_migrated (u ''identity'')
       = Some (JObj [(u ''name'', JStr (u ''Ana'')), (u ''title'', JNull)])
   \<and> load both_library profile_path (Map.empty(profile_path \<mapsto> Text text_both_dialects))
       = (Inr (JObj both_dialects_migrated),
          Map.empty(profile_path \<mapsto> Text text_both_dialects_migrated))"
proof -
  let ?fs = "Map.empty(profile_path \<mapsto> Text text_both_dialects)"
  have held: "read_document both_library profile_path ?fs = Inr (JObj both_dialects)"
    by (simp add: read_document_written both_reads)
  have french: "set (map fst both_dialects) \<inter> set french_sentinels \<noteq> {}"
    by (simp add: both_dialects_def french_sentinels_def)
  have spanish: "set (map fst both_dialects) \<inter> set spanish_sentinels \<noteq> {}"
    by (simp add: both_dialects_def spanish_sentinels_def)
  have name: "map_of both_dialects_migrated (u ''identity'')
       = Some (JObj [(u ''name'', JStr (u ''Ana'')), (u ''title'', JNull)])"
    by (simp add: both_dialects_migrated_def defaults_named_def)
  from dialect_detection_priority [OF held, THEN conjunct1] french
  have "load both_library profile_path ?fs =
          (case migrate_french_to_english (JObj both_dialects) of
             Inl e \<Rightarrow> (Inl e, ?fs)
           | Inr d' \<Rightarrow>
               if utf8_encodable (json_dumps both_library d')
               then (Inr d', ?fs(profile_path \<mapsto> Text (json_dumps both_library d')))
               else (Inl UnicodeEncodeError,
                     ?fs(profile_path \<mapsto> Text (json_dump_cut both_library d'))))"
    by blast
  then have loaded: "load both_library profile_path ?fs
       = (Inr (JObj both_dialects_migrated),
          Map.empty(profile_path \<mapsto> Text text_both_dialects_migrated))"
    by (simp add: both_dialects_migration both_writes text_both_dialects_migrated_encodable
        del: migrate_french_to_english.simps)
  from held french spanish both_dialects_migration name loaded
  show ?thesis by (simp only: simp_thms)
qed



section \<open>Properties of the PDF text extractor\<close>

lemma try_pypdf2_failure: "pdf_reader_pages L path = Inl e \<Longrightarrow> try_pypdf2 L path = []"
  by (simp add: try_pypdf2_def ebind_def)

lemma try_pdfminer_failure: "pdfminer_extract_text L path = Inl e \<Longrightarrow> try_pdfminer L path = []"
  by (simp add: try_pdfminer_def)

lemma try_ocr_failure: "convert_from_path L path = Inl e \<Longrightarrow> try_ocr L path lang = []"
  by (simp add: try_ocr_def ebind_def)

lemma pypdf2_pages_text_eq:
  "pypdf2_pages_text extract pages acc =
     (case for_each extract pages of
        Inl e \<Rightarrow> Inl e
      | Inr texts \<Rightarrow> Inr (acc @ concat (map (\<lambda>t. or_empty t @ [10]) texts)))"
  by (induction pages arbitrary: acc) (simp_all split: sum.splits)

lemma try_pypdf2_eq:
  "try_pypdf2 L path =
     (if import_pypdf2 L then
        (case pdf_reader_pages L path of
           Inl e \<Rightarrow> []
         | Inr pages \<Rightarrow>
             (case for_each (page_extract_text L) pages of
                Inl e \<Rightarrow> []
              | Inr texts \<Rightarrow> py_strip (concat (map (\<lambda>t. or_empty t @ [10]) texts))))
      else [])"
  by (simp add: try_pypdf2_def ebind_def pypdf2_pages_text_eq split: sum.splits)

lemma try_ocr_eq:
  "try_ocr L path ocr_lang =
     (if import_ocr L then
        (case convert_from_path L path of
           Inl e \<Rightarrow> []
         | Inr images \<Rightarrow>
             (case for_each (\<lambda>img. image_to_string L img (lang_or_eng ocr_lang)) images of
                Inl e \<Rightarrow> []
              | Inr texts \<Rightarrow> py_strip (join [10] texts)))
      else [])"
  by (simp add: try_ocr_def ebind_def split: sum.splits)

lemma py_strip_empty: "(py_strip s = []) = list_all py_isspace s"
proof -
  have "(\<forall>x\<in>set (dropWhile py_isspace s). py_isspace x) = (dropWhile py_isspace s = [])"
  proof
    assume spaces: "\<forall>x\<in>set (dropWhile py_isspace s). py_isspace x"
    show "dropWhile py_isspace s = []"
    proof (rule ccontr)
      assume rest: "dropWhile py_isspace s \<noteq> []"
      then have "\<not> py_isspace (hd (dropWhile py_isspace s))" by (rule hd_dropWhile)
      moreover from rest have "hd (dropWhile py_isspace s) \<in> set (dropWhile py_isspace s)"
        by simp
      ultimately show False using spaces by blast
    qed
  qed (auto dest: set_dropWhileD)
  then show ?thesis by (simp add: py_strip_def dropWhile_eq_Nil_conv list_all_iff)
qed

text \<open>
  Claim C3, amended. \<^verbatim>\<open>extract_pdf_text_any\<close> returns the first non-empty text among the
  three strategies in their order (PyPDF2, pdfminer, OCR), and the empty string when none
  gives text. A strategy gives the text of its library without the whitespace around it:
  the texts of the pages, each followed by a newline, for PyPDF2; the text of the
  document for pdfminer; the texts of the page images joined by newlines for OCR (a
  missing text counting as empty); it is empty exactly when that text is all whitespace.
  A strategy whose import fails or whose library raises gives the empty string. The
  function never raises, neither when the file has no text nor when the file is missing
  or unreadable: then all three libraries raise and the result is the empty string.
\<close>

theorem extract_pdf_text_any_first_nonempty:
  "extract_pdf_text_any L path ocr_lang =
     (case filter (\<lambda>t. t \<noteq> []) [try_pypdf2 L path, try_pdfminer L path, try_ocr L path ocr_lang] of
        [] \<Rightarrow> []
      | t # ts \<Rightarrow> t)
   \<and> try_pypdf2 L path =
       (if import_pypdf2 L then
          (case pdf_reader_pages L path of
             Inl e \<Rightarrow> []
           | Inr pages \<Rightarrow>
               (case for_each (page_extract_text L) pages of
                  Inl e \<Rightarrow> []
                | Inr texts \<Rightarrow> py_strip (concat (map (\<lambda>t. or_empty t @ [10]) texts))))
        else [])
   \<and> try_pdfminer L path =
       (if import_pdfminer L then
          (case pdfminer_extract_text L path of
             Inl e \<Rightarrow> []
           | Inr text \<Rightarrow> py_strip (or_empty text))
        else [])
   \<and> try_ocr L path ocr_lang =
       (if import_ocr L then
          (case convert_from_path L path of
             Inl e \<Rightarrow> []
           | Inr images \<Rightarrow>
               (case for_each (\<lambda>img. image_to_string L img (lang_or_eng ocr_lang)) images of
                  Inl e \<Rightarrow> []
                | Inr texts \<Rightarrow> py_strip (join [10] texts)))
        else [])
   \<and> (py_strip s = []) = list_all py_isspace s
   \<and> (\<forall>e. pdf_reader_pages L path = Inl e \<longrightarrow> try_pypdf2 L path = [])
   \<and> (\<forall>e. pdfminer_extract_text L path = Inl e \<longrightarrow> try_pdfminer L path = [])
   \<and> (\<forall>e. convert_from_path L path = Inl e \<longrightarrow> try_ocr L path ocr_lang = [])
   \<and> (\<forall>e1 e2 e3. pdf_reader_pages L path = Inl e1 \<longrightarrow> pdfminer_extract_text L path = Inl e2
          \<longrightarrow> convert_from_path L path = Inl e3 \<longrightarrow> extract_pdf_text_any L path ocr_lang = [])"
proof (intro conjI allI impI)
  show "extract_pdf_text_any L path ocr_lang =
     (case filter (\<lambda>t. t \<noteq> []) [try_pypdf2 L path, try_pdfminer L path, try_ocr L path ocr_lang] of
        [] \<Rightarrow> []
      | t # ts \<Rightarrow> t)"
    by (simp add: extract_pdf_text_any_def Let_def)
next
  show "try_pypdf2 L path =
       (if import_pypdf2 L then
          (case pdf_reader_pages L path of
             Inl e \<Rightarrow> []
           | Inr pages \<Rightarrow>
               (case for_each (page_extract_text L) pages of
                  Inl e \<Rightarrow> []
                | Inr texts \<Rightarrow> py_strip (concat (map (\<lambda>t. or_empty t @ [10]) texts))))
        else [])"
    by (rule try_pypdf2_eq)
next
  show "try_pdfminer L path =
       (if import_pdfminer L then
          (case pdfminer_extract_text L path of
             Inl e \<Rightarrow> []
           | Inr text \<Rightarrow> py_strip (or_empty text))
        else [])"
    by (simp add: try_pdfminer_def)
next
  show "try_ocr L path ocr_lang =
       (if import_ocr L then
          (case convert_from_path L path of
             Inl e \<Rightarrow> []
           | Inr images \<Rightarrow>
               (case for_each (\<lambda>img. image_to_string L img (lang_or_eng ocr_lang)) images of
                  Inl e \<Rightarrow> []
                | Inr texts \<Rightarrow> py_strip (join [10] texts)))
        else [])"
    by (rule try_ocr_eq)
next
  show "(py_strip s = []) = list_all py_isspace s"
    by (rule py_strip_empty)
next
  fix e assume "pdf_reader_pages L path = Inl e"
  then show "try_pypdf2 L path = []" by (rule try_pypdf2_failure)
next
  fix e assume "pdfminer_extract_text L path = Inl e"
  then show "try_pdfminer L path = []" by (rule try_pdfminer_failure)
next
  fix e assume "convert_from_path L path = Inl e"
  then show "try_ocr L path ocr_lang = []" by (rule try_ocr_failure)
next
  fix e1 e2 e3
  assume "pdf_reader_pages L path = Inl e1" and "pdfminer_extract_text L path = Inl e2"
    and "convert_from_path L path = Inl e3"
  then show "extract_pdf_text_any L path ocr_lang = []"
    by (simp add: extract_pdf_text_any_def try_pypdf2_failure try_pdfminer_failure try_ocr_failure)
qed

theorem extract_pdf_text_any_first_nonempty_witness:
  "pdf_reader_pages missing_file_libraries sample_pdf = Inl (FileNotFoundError sample_pdf)
   \<and> pdfminer_extract_text missing_file_libraries sample_pdf = Inl (FileNotFoundError sample_pdf)
   \<and> convert_from_path missing_file_libraries sample_pdf = Inl (ExternalError sample_pdf)
   \<and> extract_pdf_text_any missing_file_libraries sample_pdf None = []
   \<and> try_pypdf2 scanned_pdf_libraries sample_pdf = []
   \<and> try_pdfminer scanned_pdf_libraries sample_pdf = []
   \<and> extract_pdf_text_any scanned_pdf_libraries sample_pdf None = u ''Ana'' @ [10] @ u ''Dupont''
   \<and> try_pypdf2 text_layer_libraries sample_pdf = u ''Ana Dupont''
   \<and> extract_pdf_text_any text_layer_libraries sample_pdf None = u ''Ana Dupont''"
proof -
  have a: "pdf_reader_pages missing_file_libraries sample_pdf = Inl (FileNotFoundError sample_pdf)"
    and b: "pdfminer_extract_text missing_file_libraries sample_pdf = Inl (FileNotFoundError sample_pdf)"
    and c: "convert_from_path missing_file_libraries sample_pdf = Inl (ExternalError sample_pdf)"
    by (simp_all add: missing_file_libraries_def)
  note first_nonempty = extract_pdf_text_any_first_nonempty
  from first_nonempty [of missing_file_libraries sample_pdf None] a b c
  have missing: "extract_pdf_text_any missing_file_libraries sample_pdf None = []"
    by blast
  from first_nonempty [of scanned_pdf_libraries sample_pdf None]
  have p: "try_pypdf2 scanned_pdf_libraries sample_pdf = []"
    and m: "try_pdfminer scanned_pdf_libraries sample_pdf = []"
    and o: "try_ocr scanned_pdf_libraries sample_pdf None = u ''Ana'' @ [10] @ u ''Dupont''"
    by (simp_all add: scanned_pdf_libraries_def py_strip_def py_isspace_def lang_or_eng_def)
  from first_nonempty [of scanned_pdf_libraries sample_pdf None, THEN conjunct1]
  have scanned: "extract_pdf_text_any scanned_pdf_libraries sample_pdf None
      = u ''Ana'' @ [10] @ u ''Dupont''"
    by (simp add: p m o)
  from first_nonempty [of text_layer_libraries sample_pdf None]
  have t: "try_pypdf2 text_layer_libraries sample_pdf = u ''Ana Dupont''"
    by (simp add: text_layer_libraries_def py_strip_def py_isspace_def)
  from first_nonempty [of text_layer_libraries sample_pdf None, THEN conjunct1]
  have layer: "extract_pdf_text_any text_layer_libraries sample_pdf None = u ''Ana Dupont''"
    by (simp add: t)
  from a b c missing p m scanned t layer show ?thesis by simp
qed

text \<open>
  Claim C3 as stated does not hold: it has the extractor raise for a missing or
  unreadable file. On such a file every library raises, each strategy catches the
  exception, and \<^verbatim>\<open>extract_pdf_text_any\<close> returns the empty string.
\<close>

theorem extract_pdf_text_any_counterexample:
  "import_pypdf2 missing_file_libraries
   \<and> pdf_reader_pages missing_file_libraries sample_pdf = Inl (FileNotFoundError sample_pdf)
   \<and> import_pdfminer missing_file_libraries
   \<and> pdfminer_extract_text missing_file_libraries sample_pdf = Inl (FileNotFoundError sample_pdf)
   \<and> import_ocr missing_file_libraries
   \<and> convert_from_path missing_file_libraries sample_pdf = Inl (ExternalError sample_pdf)
   \<and> try_pypdf2 missing_file_libraries sample_pdf = []
   \<and> try_pdfminer missing_file_libraries sample_pdf = []
   \<and> try_ocr missing_file_libraries sample_pdf None = []
   \<and> extract_pdf_text_any missing_file_libraries sample_pdf None = []"
  by (simp add: extract_pdf_text_any_def try_pypdf2_def try_pdfminer_def try_ocr_def ebind_def
      missing_file_libraries_def)

section \<open>Properties of the tailoring stages\<close>

lemma sanitize_clean: "set (sanitize s) \<inter> set forbidden_chars = {}"
  by (auto simp add: sanitize_def)

lemma replace_newline: "10 \<notin> set (replace_char 10 32 s)"
  by (auto simp add: replace_char_def)

lemma sanitize_subset: "set (sanitize s) \<subseteq> set s"
  by (auto simp add: sanitize_def)

lemma title_of_response_safe:
  assumes "title_of_response response = Some t"
  shows "t \<noteq> [] \<and> length t \<le> 50 \<and> set t \<inter> set forbidden_chars = {} \<and> 10 \<notin> set t"
proof -
  let ?s = "sanitize (replace_char 10 32 (py_strip response))"
  from assms have t: "t = take 50 ?s" and nonempty: "t \<noteq> []"
    by (auto simp add: title_of_response_def Let_def split: if_splits)
  have sub: "set t \<subseteq> set ?s" unfolding t by (rule set_take_subset)
  have "set t \<inter> set forbidden_chars = {}"
    using sub sanitize_clean [of "replace_char 10 32 (py_strip response)"] by blast
  moreover have "10 \<notin> set t"
    using sub sanitize_subset [of "replace_char 10 32 (py_strip response)"]
      replace_newline [of "py_strip response"] by blast
  moreover have "length t \<le> 50" unfolding t by simp
  ultimately show ?thesis using nonempty by simp
qed

lemma pdf_suffix_clean: "set (u ''.pdf'') \<inter> set forbidden_chars = {}"
  by (simp add: forbidden_chars_def)

lemma generate_filename_shape:
  assumes "generate_filename self today job_title = Inr f"
  shows "\<exists>stem. f = sanitize stem @ u ''.pdf''"
  using assms by (auto simp add: generate_filename_def ebind_def split: sum.splits if_splits)

text \<open>
  Claim C10, amended. Whatever the completion service answers, \<^verbatim>\<open>extract_job_title\<close>
  returns \<^verbatim>\<open>None\<close> or a non-empty string of at most 50 characters with none of the nine
  characters \<^verbatim>\<open>< > : " / \ | ? *\<close> and no newline. Whenever \<^verbatim>\<open>generate_filename\<close> returns,
  its result ends in \<^verbatim>\<open>.pdf\<close> and has none of the nine characters; and it returns for
  every job title (\<^verbatim>\<open>None\<close> and the empty string included) on a profile whose
  \<^verbatim>\<open>identity.name\<close> is a string, and for every non-empty job title on any profile.
\<close>

theorem filenames_are_sanitized:
  "(title_of_response response = None
      \<or> (\<exists>t. title_of_response response = Some t \<and> t \<noteq> [] \<and> length t \<le> 50
             \<and> set t \<inter> set forbidden_chars = {} \<and> 10 \<notin> set t))
   \<and> (client self (title_prompt (detect_language L offer) offer) = Inr response \<longrightarrow>
        fst (extract_job_title L self offer) = Inr (title_of_response response))
   \<and> (\<forall>f. generate_filename self today job_title = Inr f \<longrightarrow>
        (\<exists>stem. f = stem @ u ''.pdf'') \<and> set f \<inter> set forbidden_chars = {})
   \<and> (or_empty job_title \<noteq> []
        \<or> (\<exists>d i s. profile self = JObj d \<and> map_of d (u ''identity'') = Some (JObj i)
               \<and> map_of i (u ''name'') = Some (JStr s))
        \<longrightarrow> (\<exists>f. generate_filename self today job_title = Inr f))"
proof (intro conjI allI impI)
  show "title_of_response response = None
      \<or> (\<exists>t. title_of_response response = Some t \<and> t \<noteq> [] \<and> length t \<le> 50
             \<and> set t \<inter> set forbidden_chars = {} \<and> 10 \<notin> set t)"
  proof (cases "title_of_response response")
    case None
    then show ?thesis by simp
  next
    case (Some t)
    with title_of_response_safe [OF Some] show ?thesis by simp
  qed
next
  assume "client self (title_prompt (detect_language L offer) offer) = Inr response"
  then show "fst (extract_job_title L self offer) = Inr (title_of_response response)"
    by (simp add: extract_job_title_def Let_def)
next
  fix f assume "generate_filename self today job_title = Inr f"
  then obtain stem where f: "f = sanitize stem @ u ''.pdf''"
    using generate_filename_shape by blast
  then show "\<exists>stem. f = stem @ u ''.pdf''" by blast
next
  fix f assume "generate_filename self today job_title = Inr f"
  then obtain stem where f: "f = sanitize stem @ u ''.pdf''"
    using generate_filename_shape by blast
  have "set f = set (sanitize stem) \<union> set (u ''.pdf'')" unfolding f by (rule set_append)
  then show "set f \<inter> set forbidden_chars = {}"
    using sanitize_clean [of stem] pdf_suffix_clean by blast
next
  assume "or_empty job_title \<noteq> []
        \<or> (\<exists>d i s. profile self = JObj d \<and> map_of d (u ''identity'') = Some (JObj i)
               \<and> map_of i (u ''name'') = Some (JStr s))"
  then show "\<exists>f. generate_filename self today job_title = Inr f"
    by (auto simp add: generate_filename_def ebind_def)
qed

theorem filenames_are_sanitized_witness:
  "client answering_generator
       (title_prompt (detect_language sample_library sample_offer) sample_offer)
     = Inr sample_response
   \<and> title_of_response sample_response = Some (u ''Data Engineer MLAI'')
   \<and> fst (extract_job_title sample_library answering_generator sample_offer)
     = Inr (Some (u ''Data Engineer MLAI''))
   \<and> generate_filename answering_generator sample_today (Some (u ''Data Engineer MLAI''))
     = Inr (u ''Resume_Data Engineer MLAI.pdf'')
   \<and> profile answering_generator = JObj sample_canonical
   \<and> generate_filename answering_generator sample_today None
     = Inr (u ''Resume_Ana_Dupont_20240115.pdf'')
   \<and> set (u ''Resume_Ana_Dupont_20240115.pdf'') \<inter> set forbidden_chars = {}"
proof -
  note claim = filenames_are_sanitized [of sample_response answering_generator sample_library
      sample_offer sample_today None]
  have answer: "client answering_generator
       (title_prompt (detect_language sample_library sample_offer) sample_offer)
     = Inr sample_response"
    by (simp add: answering_generator_def)
  have title: "title_of_response sample_response = Some (u ''Data Engineer MLAI'')"
    by (simp add: title_of_response_def sample_response_def py_strip_def py_isspace_def
        replace_char_def sanitize_def forbidden_chars_def Let_def)
  from claim answer title
  have extracted: "fst (extract_job_title sample_library answering_generator sample_offer)
     = Inr (Some (u ''Data Engineer MLAI''))"
    by simp
  have titled: "generate_filename answering_generator sample_today (Some (u ''Data Engineer MLAI''))
     = Inr (u ''Resume_Data Engineer MLAI.pdf'')"
    by (simp add: generate_filename_def ebind_def sanitize_def forbidden_chars_def)
  have prof: "profile answering_generator = JObj sample_canonical"
    by (simp add: answering_generator_def)
  have untitled: "generate_filename answering_generator sample_today None
     = Inr (u ''Resume_Ana_Dupont_20240115.pdf'')"
    by (simp add: generate_filename_def ebind_def sanitize_def forbidden_chars_def
        answering_generator_def sample_canonical_def ana_canonical_def replace_char_def
        sample_today_def)
  with claim have clean: "set (u ''Resume_Ana_Dupont_20240115.pdf'') \<inter> set forbidden_chars = {}"
    by blast
  from answer title extracted titled prof untitled clean show ?thesis by blast
qed

text \<open>
  Claim C10 as stated, for every job title on whatever profile, fails where the profile's
  name is null: it is what the migration leaves for a legacy document without a name, and
  with no job title \<^verbatim>\<open>generate_filename\<close> then calls \<^verbatim>\<open>replace\<close> on \<^verbatim>\<open>None\<close>.
\<close>

theorem generate_filename_counterexample:
  "migrate (JObj [(u ''identite'', JObj [])]) = Inr (JObj nameless_profile)
   \<and> generate_filename nameless_generator sample_today None = Inl AttributeError
   \<and> generate_filename nameless_generator sample_today (Some []) = Inl AttributeError"
proof (intro conjI)
  show "migrate (JObj [(u ''identite'', JObj [])]) = Inr (JObj nameless_profile)"
    by (simp add: migrate_def looks_french_schema_def french_sentinels_def ebind_def
        dict_get_def Let_def nameless_profile_def)
  show "generate_filename nameless_generator sample_today None = Inl AttributeError"
    by (simp add: generate_filename_def ebind_def nameless_generator_def nameless_profile_def)
  show "generate_filename nameless_generator sample_today (Some []) = Inl AttributeError"
    by (simp add: generate_filename_def ebind_def nameless_generator_def nameless_profile_def)
qed

text \<open>
  Claim C1 on the code. In \<^verbatim>\<open>generate_resume.py\<close> the call of the completion service
  stands outside every \<^verbatim>\<open>try\<close>: when the service raises, \<^verbatim>\<open>adapt_profile\<close>,
  \<^verbatim>\<open>select_experiences\<close> and \<^verbatim>\<open>select_skills\<close> raise too, on every profile and offer (the
  exception of the service, or a KeyError when the profile lacks the field). No stage
  returns its fallback.
\<close>

theorem tailoring_stages_propagate_service_error:
  "(\<exists>err. adapt_profile L (self\<lparr>client := (\<lambda>prompt. Inl e)\<rparr>) offer = Inl err)
   \<and> (\<exists>err. select_experiences L (self\<lparr>client := (\<lambda>prompt. Inl e)\<rparr>) offer = Inl err)
   \<and> (\<exists>err. select_skills L (self\<lparr>client := (\<lambda>prompt. Inl e)\<rparr>) offer = Inl err)
   \<and> adapt_profile L failing_generator offer = Inl (ExternalError (u ''connection refused''))
   \<and> select_experiences L failing_generator offer = Inl (ExternalError (u ''connection refused''))
   \<and> select_skills L failing_generator offer = Inl (ExternalError (u ''connection refused''))"
proof (intro conjI)
  show "\<exists>err. adapt_profile L (self\<lparr>client := (\<lambda>prompt. Inl e)\<rparr>) offer = Inl err"
    by (cases "py_getitem (profile self) (u ''long_profile'')")
      (simp_all add: adapt_profile_def ebind_def)
  show "\<exists>err. select_experiences L (self\<lparr>client := (\<lambda>prompt. Inl e)\<rparr>) offer = Inl err"
    by (cases "py_getitem (profile self) (u ''experiences'')")
      (simp_all add: select_experiences_def ebind_def Let_def)
  show "\<exists>err. select_skills L (self\<lparr>client := (\<lambda>prompt. Inl e)\<rparr>) offer = Inl err"
    by (cases "py_getitem (profile self) (u ''skills'')")
      (simp_all add: select_skills_def ebind_def)
  show "adapt_profile L failing_generator offer = Inl (ExternalError (u ''connection refused''))"
    by (simp add: adapt_profile_def ebind_def failing_generator_def sample_canonical_def
        ana_canonical_def)
  show "select_experiences L failing_generator offer = Inl (ExternalError (u ''connection refused''))"
    by (simp add: select_experiences_def ebind_def Let_def failing_generator_def
        sample_canonical_def ana_canonical_def)
  show "select_skills L failing_generator offer = Inl (ExternalError (u ''connection refused''))"
    by (simp add: select_skills_def ebind_def failing_generator_def sample_canonical_def
        ana_canonical_def)
qed

text \<open>
  The one fallback \<^verbatim>\<open>generate_resume.py\<close> has: when the service answers and \<^verbatim>\<open>json.loads\<close>
  rejects the answer, \<^verbatim>\<open>select_experiences\<close> returns the first two experiences of the
  profile.
\<close>

theorem select_experiences_fallback:
  assumes "profile self = JObj d"
      and "map_of d (u ''experiences'') = Some (JArr xs)"
      and "client self (experiences_prompt (locale_code self) offer (json_dumps L (JArr xs)))
             = Inr response"
      and "json_loads L response = None"
      and "json_loads L (slice (find_char 91 response) (rfind_char 93 response + 1) response) = None"
  shows "select_experiences L self offer = Inr (JArr (take 2 xs))"
  using assms by (simp add: select_experiences_def ebind_def Let_def)

theorem select_experiences_fallback_witness:
  "profile answering_generator = JObj sample_canonical
   \<and> map_of sample_canonical (u ''experiences'') = Some (JArr [sample_experience_en])
   \<and> json_loads sample_library sample_response = None
   \<and> select_experiences sample_library answering_generator sample_offer
        = Inr (JArr [sample_experience_en])"
proof -
  have prof: "profile answering_generator = JObj sample_canonical"
    by (simp add: answering_generator_def)
  have exps: "map_of sample_canonical (u ''experiences'') = Some (JArr [sample_experience_en])"
    by (simp add: sample_canonical_def ana_canonical_def)
  have answer: "client answering_generator (experiences_prompt (locale_code answering_generator)
        sample_offer (json_dumps sample_library (JArr [sample_experience_en]))) = Inr sample_response"
    by (simp add: answering_generator_def)
  have rejected: "json_loads sample_library s = None" for s
    by (simp add: sample_library_def)
  from select_experiences_fallback [OF prof exps answer rejected rejected]
  have "select_experiences sample_library answering_generator sample_offer
        = Inr (JArr [sample_experience_en])"
    by simp
  with prof exps rejected show ?thesis by blast
qed

text \<open>
  The stages of \<^verbatim>\<open>main.py\<close> do fall back. With a client that raises on every call and a
  profile that is a mapping, the summary stage returns the profile's \<^verbatim>\<open>long_profile\<close> (a
  fixed sentence when it has none), the experiences stage the first three experiences,
  and the skills stage the profile's \<^verbatim>\<open>skills\<close> (two empty lists when it has none).
\<close>

theorem main_stages_fall_back:
  assumes "main_profile self = JObj p"
      and "main_client self = Some generate"
      and "\<forall>prompt. \<exists>e. generate prompt = Inl e"
  shows "adapt_profile_for_job L self job_description
           = Inr (dict_get p (u ''long_profile'') (JStr default_summary))
       \<and> select_relevant_experiences L self job_description
           = py_prefix 3 (dict_get p (u ''experiences'') (JArr []))
       \<and> select_relevant_skills L self job_description
           = Inr (dict_get p (u ''skills'') default_skills)"
proof (intro conjI)
  from assms(3) obtain e where "generate (main_summary_prompt job_description
        (format_value L (dict_get p (u ''long_profile'') (JStr [])))
        (json_dumps_ascii L (dict_get p (u ''experiences'') (JArr [])))) = Inl e"
    by blast
  with assms(1,2) show "adapt_profile_for_job L self job_description
           = Inr (dict_get p (u ''long_profile'') (JStr default_summary))"
    by (simp add: adapt_profile_for_job_def ebind_def)
next
  from assms(3) obtain e where "generate (main_experiences_prompt job_description
        (json_dumps_ascii L (dict_get p (u ''experiences'') (JArr [])))) = Inl e"
    by blast
  with assms(1,2) show "select_relevant_experiences L self job_description
           = py_prefix 3 (dict_get p (u ''experiences'') (JArr []))"
    by (simp add: select_relevant_experiences_def ebind_def Let_def)
next
  from assms(3) obtain e where "generate (main_skills_prompt job_description
        (json_dumps_ascii L (dict_get p (u ''skills'') (JObj [])))) = Inl e"
    by blast
  with assms(1,2) show "select_relevant_skills L self job_description
           = Inr (dict_get p (u ''skills'') default_skills)"
    by (simp add: select_relevant_skills_def ebind_def Let_def)
qed

theorem main_stages_fall_back_witness:
  "main_profile failing_main_generator = JObj sample_canonical
   \<and> adapt_profile_for_job sample_library failing_main_generator sample_offer
        = Inr (JStr (u ''...''))
   \<and> select_relevant_experiences sample_library failing_main_generator sample_offer
        = Inr (JArr [sample_experience_en])
   \<and> select_relevant_skills sample_library failing_main_generator sample_offer
        = Inr (JObj [(u ''technical'', JArr [JStr (u ''Python'')]), (u ''methodological'', JArr [])])"
proof -
  have prof: "main_profile failing_main_generator = JObj sample_canonical"
    by (simp add: failing_main_generator_def)
  have cl: "main_client failing_main_generator
              = Some (\<lambda>prompt. Inl (ExternalError (u ''connection refused'')))"
    by (simp add: failing_main_generator_def)
  have raises: "\<forall>prompt. \<exists>e. (\<lambda>prompt. Inl (ExternalError (u ''connection refused'')) :: error + ustring)
                   prompt = Inl e"
    by simp
  have fields: "dict_get sample_canonical (u ''long_profile'') (JStr default_summary) = JStr (u ''...'')"
    "dict_get sample_canonical (u ''experiences'') (JArr []) = JArr [sample_experience_en]"
    "dict_get sample_canonical (u ''skills'') default_skills
       = JObj [(u ''technical'', JArr [JStr (u ''Python'')]), (u ''methodological'', JArr [])]"
    by (simp_all add: sample_canonical_def ana_canonical_def dict_get_def)
  from main_stages_fall_back [OF prof cl raises, of sample_library sample_offer] prof
  show ?thesis
    by (simp only: fields py_prefix.simps take_Cons' take_Nil simp_thms if_False if_True)
      simp
qed

end
